theory Spec2Isabelle
  imports Complex_Main "HOL-Library.Word" "HOL-Library.AList" "HOL-Library.Log_Nat"
begin

section \<open>JavaScript values and coercions\<close>

text \<open>
  The program is TypeScript; at run time its normalizers receive arbitrary parsed JSON.
  A number is NaN, an infinity or a finite value. A finite value is a rational: the doubles
  are among them, and comparison, \<open>Math.min\<close>, \<open>Math.max\<close> and \<open>Math.floor\<close> are exact on
  doubles. \<open>js_sub\<close> and \<open>js_div\<close> are the exact difference and quotient; the program's \<open>-\<close>
  and \<open>/\<close> are \<open>ieee_sub\<close> and \<open>ieee_div\<close>, which round them to the nearest double as
  IEEE 754 does. The sign of zero is not modelled.
  A string is a list of 8-bit characters with ASCII case mapping and ASCII white space.
  An object is an association list in key order, read by its first entry for a key; an
  array is a list (no holes). Functions, symbols and big integers do not occur in JSON.
\<close>

datatype jsnum = NaN | PosInf | NegInf | Fin rat

datatype jsval =
    Undefined
  | Null
  | Bool bool
  | Num jsnum
  | Str string
  | Arr "jsval list"
  | Obj "(string \<times> jsval) list"

type_synonym jsobj = "(string \<times> jsval) list"

text \<open>
  What the platform supplies: the digits of \<open>Number::toString\<close>, the parser behind
  \<open>Number(string)\<close>, and the random sources: \<open>randomUUID\<close> is what \<open>crypto.randomUUID()\<close>
  returns, \<open>hasRandomUUID\<close> whether \<open>cryptoRandomId\<close> finds that function, \<open>mathRandomId\<close> the
  string it builds from \<open>Math.random()\<close> and \<open>Date.now()\<close> otherwise, \<open>getRandomValues\<close> the
  bytes \<open>crypto.getRandomValues\<close> writes. Every function that reaches one of them takes the
  host as its first argument.
\<close>

record host =
  numberToString :: "jsnum \<Rightarrow> string"
  stringToNumber :: "string \<Rightarrow> jsnum"
  hasRandomUUID :: bool
  randomUUID :: string
  mathRandomId :: string
  getRandomValues :: "nat \<Rightarrow> 8 word"

fun isFiniteNum :: "jsnum \<Rightarrow> bool" where
  "isFiniteNum (Fin q) = True"
| "isFiniteNum n = False"

text \<open>\<open>Number.isFinite(v)\<close>: no coercion, true only of a finite number.\<close>

fun Number_isFinite :: "jsval \<Rightarrow> bool" where
  "Number_isFinite (Num n) = isFiniteNum n"
| "Number_isFinite v = False"

fun Math_min :: "jsnum \<Rightarrow> jsnum \<Rightarrow> jsnum" where
  "Math_min NaN b = NaN"
| "Math_min a NaN = NaN"
| "Math_min NegInf b = NegInf"
| "Math_min a NegInf = NegInf"
| "Math_min PosInf b = b"
| "Math_min a PosInf = a"
| "Math_min (Fin a) (Fin b) = Fin (min a b)"

fun Math_max :: "jsnum \<Rightarrow> jsnum \<Rightarrow> jsnum" where
  "Math_max NaN b = NaN"
| "Math_max a NaN = NaN"
| "Math_max PosInf b = PosInf"
| "Math_max a PosInf = PosInf"
| "Math_max NegInf b = b"
| "Math_max a NegInf = a"
| "Math_max (Fin a) (Fin b) = Fin (max a b)"

fun Math_floor :: "jsnum \<Rightarrow> jsnum" where
  "Math_floor (Fin q) = Fin (of_int \<lfloor>q\<rfloor>)"
| "Math_floor n = n"

text \<open>
  The exact difference and quotient of two numbers, and \<open>a < b\<close> and \<open>a <= b\<close>.
\<close>

fun js_sub :: "jsnum \<Rightarrow> jsnum \<Rightarrow> jsnum" where
  "js_sub NaN b = NaN"
| "js_sub a NaN = NaN"
| "js_sub PosInf PosInf = NaN"
| "js_sub NegInf NegInf = NaN"
| "js_sub PosInf b = PosInf"
| "js_sub NegInf b = NegInf"
| "js_sub (Fin a) PosInf = NegInf"
| "js_sub (Fin a) NegInf = PosInf"
| "js_sub (Fin a) (Fin b) = Fin (a - b)"


fun js_less :: "jsnum \<Rightarrow> jsnum \<Rightarrow> bool" where
  "js_less NaN b = False"
| "js_less a NaN = False"
| "js_less a NegInf = False"
| "js_less PosInf b = False"
| "js_less NegInf b = True"
| "js_less a PosInf = True"
| "js_less (Fin a) (Fin b) = (a < b)"

fun js_le :: "jsnum \<Rightarrow> jsnum \<Rightarrow> bool" where
  "js_le NaN b = False"
| "js_le a NaN = False"
| "js_le NegInf b = True"
| "js_le a PosInf = True"
| "js_le a NegInf = False"
| "js_le PosInf b = False"
| "js_le (Fin a) (Fin b) = (a \<le> b)"

subsection \<open>Doubles\<close>

text \<open>
  A double is \<open>m * 2 ^ e\<close> with an integer \<open>m\<close> of at most 53 bits and \<open>e\<close> from -1074 on, below
  \<open>2 ^ 1024\<close> in size. \<open>expo x\<close> is the exponent of the power of two at or below a positive \<open>x\<close>,
  \<open>ulp x\<close> the distance of the doubles around \<open>x\<close> (the least one, \<open>2 ^ -1074\<close>, below
  \<open>2 ^ -1022\<close>), \<open>roundEven\<close> the nearest integer with ties to the even one, \<open>roundRat x\<close> the
  nearest multiple of \<open>ulp x\<close> with ties to the even multiple, and \<open>toDouble x\<close> the double that
  IEEE 754 rounds \<open>x\<close> to: an infinity when the rounded value reaches \<open>2 ^ 1024\<close>, that is
  when its exponent is 1024 or more (lemma \<open>toDouble_alt\<close>).
\<close>

definition roundEven :: "rat \<Rightarrow> int" where
  "roundEven y =
     (let f = \<lfloor>y\<rfloor>; d = y - of_int f
      in if d < 1 / 2 then f else if 1 / 2 < d then f + 1 else if even f then f else f + 1)"

definition expo :: "rat \<Rightarrow> int" where
  "expo x = (if 1 \<le> x then bitlen \<lfloor>x\<rfloor> - 1 else - bitlen (\<lceil>1 / x\<rceil> - 1))"

definition ulp :: "rat \<Rightarrow> rat" where
  "ulp x = 2 powi (max (expo \<bar>x\<bar>) (- 1022) - 52)"

definition roundRat :: "rat \<Rightarrow> rat" where
  "roundRat x = (if x = 0 then 0 else of_int (roundEven (x / ulp x)) * ulp x)"

definition toDouble :: "rat \<Rightarrow> jsnum" where
  "toDouble x =
     (let r = roundRat x
      in if 1024 \<le> expo \<bar>r\<bar> then (if 0 < r then PosInf else NegInf) else Fin r)"

text \<open>
  The operators of the program on numbers: each operand is read as a double (which every
  number of the program is) and the exact result is rounded to a double.
\<close>

fun asDouble :: "jsnum \<Rightarrow> jsnum" where
  "asDouble (Fin q) = toDouble q"
| "asDouble n = n"

definition ieee_sub :: "jsnum \<Rightarrow> jsnum \<Rightarrow> jsnum" where
  "ieee_sub a b = asDouble (js_sub (asDouble a) (asDouble b))"


subsection \<open>Strings\<close>

definition isWhiteSpace :: "char \<Rightarrow> bool" where
  "isWhiteSpace c = (of_char c \<in> {9, 10, 11, 12, 13, 32 :: nat})"

definition trim :: "string \<Rightarrow> string" where
  "trim s = rev (dropWhile isWhiteSpace (rev (dropWhile isWhiteSpace s)))"

definition toUpperChar :: "char \<Rightarrow> char" where
  "toUpperChar c =
     (let n = of_char c :: nat in if 97 \<le> n \<and> n \<le> 122 then char_of (n - 32) else c)"

definition toLowerChar :: "char \<Rightarrow> char" where
  "toLowerChar c =
     (let n = of_char c :: nat in if 65 \<le> n \<and> n \<le> 90 then char_of (n + 32) else c)"

definition toUpperCase :: "string \<Rightarrow> string" where
  "toUpperCase s = map toUpperChar s"

definition toLowerCase :: "string \<Rightarrow> string" where
  "toLowerCase s = map toLowerChar s"

text \<open>\<open>xs.join(sep)\<close> on strings.\<close>

fun join :: "string \<Rightarrow> string list \<Rightarrow> string" where
  "join sep [] = []"
| "join sep [x] = x"
| "join sep (x # y # ys) = x @ sep @ join sep (y # ys)"

subsection \<open>Coercions and property access\<close>

definition nullish :: "jsval \<Rightarrow> bool" where
  "nullish v = (v = Undefined \<or> v = Null)"

text \<open>\<open>a ?? b\<close>\<close>

definition coalesce :: "jsval \<Rightarrow> jsval \<Rightarrow> jsval" where
  "coalesce a b = (if nullish a then b else a)"

text \<open>\<open>String(v)\<close>; an array joins its elements with commas, null and undefined as empty.\<close>

fun js_String :: "host \<Rightarrow> jsval \<Rightarrow> string" where
  "js_String h Undefined = ''undefined''"
| "js_String h Null = ''null''"
| "js_String h (Bool b) = (if b then ''true'' else ''false'')"
| "js_String h (Num n) = numberToString h n"
| "js_String h (Str s) = s"
| "js_String h (Arr xs) =
     join '','' (map (\<lambda>x. if x = Undefined \<or> x = Null then [] else js_String h x) xs)"
| "js_String h (Obj kvs) = ''[object Object]''"

text \<open>\<open>Number(v)\<close>; arrays and objects go through their string.\<close>

fun js_Number :: "host \<Rightarrow> jsval \<Rightarrow> jsnum" where
  "js_Number h Undefined = NaN"
| "js_Number h Null = Fin 0"
| "js_Number h (Bool b) = (if b then Fin 1 else Fin 0)"
| "js_Number h (Num n) = n"
| "js_Number h (Str s) = stringToNumber h s"
| "js_Number h v = stringToNumber h (js_String h v)"




fun js_Boolean :: "jsval \<Rightarrow> bool" where
  "js_Boolean Undefined = False"
| "js_Boolean Null = False"
| "js_Boolean (Bool b) = b"
| "js_Boolean (Num n) = (n \<noteq> NaN \<and> n \<noteq> Fin 0)"
| "js_Boolean (Str s) = (s \<noteq> [])"
| "js_Boolean v = True"

text \<open>\<open>v?.[k]\<close> for the keys the program reads: undefined unless \<open>v\<close> is an object with \<open>k\<close>.\<close>

fun get :: "jsval \<Rightarrow> string \<Rightarrow> jsval" where
  "get (Obj kvs) k = (case map_of kvs k of Some v \<Rightarrow> v | None \<Rightarrow> Undefined)"
| "get v k = Undefined"

text \<open>\<open>{...a, ...b}\<close>: the keys of \<open>a\<close> in place, overwritten by \<open>b\<close>; new keys at the end.\<close>

definition spread :: "jsobj \<Rightarrow> jsobj \<Rightarrow> jsobj" where
  "spread a b = foldl (\<lambda>out (k, v). AList.update k v out) a b"


section \<open>Types and constants of the application\<close>

text \<open>
  A union of string literals is a datatype with the function that gives each member its
  string. \<open>Record<K, V>\<close> is an association list \<open>(K \<times> V) list\<close> in insertion order.
\<close>

datatype MpTier = MpNone | Low | Med | High | VeryHigh | Extreme

definition MP_TIERS :: "MpTier list" where
  "MP_TIERS = [MpNone, Low, Med, High, VeryHigh, Extreme]"

fun mpTierName :: "MpTier \<Rightarrow> string" where
  "mpTierName MpNone = ''None''"
| "mpTierName Low = ''Low''"
| "mpTierName Med = ''Med''"
| "mpTierName High = ''High''"
| "mpTierName VeryHigh = ''Very High''"
| "mpTierName Extreme = ''Extreme''"

fun MP_TIER_TO_COST :: "MpTier \<Rightarrow> jsnum" where
  "MP_TIER_TO_COST MpNone = Fin 0"
| "MP_TIER_TO_COST Low = Fin 25"
| "MP_TIER_TO_COST Med = Fin 50"
| "MP_TIER_TO_COST High = Fin 100"
| "MP_TIER_TO_COST VeryHigh = Fin 150"
| "MP_TIER_TO_COST Extreme = Fin 200"

datatype Race = Human | Elf | Automaton | Daemon | Scalekin

definition RACES :: "Race list" where
  "RACES = [Human, Elf, Automaton, Daemon, Scalekin]"

fun raceName :: "Race \<Rightarrow> string" where
  "raceName Human = ''Human''"
| "raceName Elf = ''Elf''"
| "raceName Automaton = ''Automaton''"
| "raceName Daemon = ''Daemon''"
| "raceName Scalekin = ''Scalekin''"

datatype Rank = Bronze | Silver | Gold | Diamond

definition RANKS :: "Rank list" where
  "RANKS = [Bronze, Silver, Gold, Diamond]"

fun rankName :: "Rank \<Rightarrow> string" where
  "rankName Bronze = ''Bronze''"
| "rankName Silver = ''Silver''"
| "rankName Gold = ''Gold''"
| "rankName Diamond = ''Diamond''"

record RaceStats =
  hp :: jsnum
  mp :: jsnum
  baseAc :: jsnum

definition RACE_STATS :: "(string \<times> RaceStats) list" where
  "RACE_STATS =
    [(''Human'', \<lparr>hp = Fin 150, mp = Fin 200, baseAc = Fin 14\<rparr>),
     (''Elf'', \<lparr>hp = Fin 125, mp = Fin 250, baseAc = Fin 13\<rparr>),
     (''Automaton'', \<lparr>hp = Fin 200, mp = Fin 150, baseAc = Fin 15\<rparr>),
     (''Daemon'', \<lparr>hp = Fin 150, mp = Fin 225, baseAc = Fin 13\<rparr>),
     (''Scalekin'', \<lparr>hp = Fin 150, mp = Fin 225, baseAc = Fin 14\<rparr>)]"

definition getRaceStats :: "string \<Rightarrow> RaceStats" where
  "getRaceStats race =
     (case map_of RACE_STATS race of
        Some s \<Rightarrow> s
      | None \<Rightarrow> the (map_of RACE_STATS ''Human''))"

datatype AbilityKey = A_str | A_dex | A_con | A_int | A_wis | A_cha

definition ABILITY_KEYS :: "AbilityKey list" where
  "ABILITY_KEYS = [A_str, A_dex, A_con, A_int, A_wis, A_cha]"

fun abilityKeyName :: "AbilityKey \<Rightarrow> string" where
  "abilityKeyName A_str = ''str''"
| "abilityKeyName A_dex = ''dex''"
| "abilityKeyName A_con = ''con''"
| "abilityKeyName A_int = ''int''"
| "abilityKeyName A_wis = ''wis''"
| "abilityKeyName A_cha = ''cha''"

datatype SkillKey =
    acrobatics | animal_handling | arcana | athletics | deception | history
  | insight | intimidation | investigation | medicine | nature | perception
  | performance | persuasion | religion | sleight_of_hand | stealth | survival

fun skillKeyName :: "SkillKey \<Rightarrow> string" where
  "skillKeyName acrobatics = ''acrobatics''"
| "skillKeyName animal_handling = ''animal_handling''"
| "skillKeyName arcana = ''arcana''"
| "skillKeyName athletics = ''athletics''"
| "skillKeyName deception = ''deception''"
| "skillKeyName history = ''history''"
| "skillKeyName insight = ''insight''"
| "skillKeyName intimidation = ''intimidation''"
| "skillKeyName investigation = ''investigation''"
| "skillKeyName medicine = ''medicine''"
| "skillKeyName nature = ''nature''"
| "skillKeyName perception = ''perception''"
| "skillKeyName performance = ''performance''"
| "skillKeyName persuasion = ''persuasion''"
| "skillKeyName religion = ''religion''"
| "skillKeyName sleight_of_hand = ''sleight_of_hand''"
| "skillKeyName stealth = ''stealth''"
| "skillKeyName survival = ''survival''"

record SkillDef =
  skill_key :: SkillKey
  skill_name :: string
  skill_ability :: AbilityKey

definition SKILLS :: "SkillDef list" where
  "SKILLS =
    [\<lparr>skill_key = acrobatics, skill_name = ''Acrobatics'', skill_ability = A_dex\<rparr>,
     \<lparr>skill_key = animal_handling, skill_name = ''Animal Handling'', skill_ability = A_wis\<rparr>,
     \<lparr>skill_key = arcana, skill_name = ''Arcana'', skill_ability = A_int\<rparr>,
     \<lparr>skill_key = athletics, skill_name = ''Athletics'', skill_ability = A_str\<rparr>,
     \<lparr>skill_key = deception, skill_name = ''Deception'', skill_ability = A_cha\<rparr>,
     \<lparr>skill_key = history, skill_name = ''History'', skill_ability = A_int\<rparr>,
     \<lparr>skill_key = insight, skill_name = ''Insight'', skill_ability = A_wis\<rparr>,
     \<lparr>skill_key = intimidation, skill_name = ''Intimidation'', skill_ability = A_cha\<rparr>,
     \<lparr>skill_key = investigation, skill_name = ''Investigation'', skill_ability = A_int\<rparr>,
     \<lparr>skill_key = medicine, skill_name = ''Medicine'', skill_ability = A_wis\<rparr>,
     \<lparr>skill_key = nature, skill_name = ''Nature'', skill_ability = A_int\<rparr>,
     \<lparr>skill_key = perception, skill_name = ''Perception'', skill_ability = A_wis\<rparr>,
     \<lparr>skill_key = performance, skill_name = ''Performance'', skill_ability = A_cha\<rparr>,
     \<lparr>skill_key = persuasion, skill_name = ''Persuasion'', skill_ability = A_cha\<rparr>,
     \<lparr>skill_key = religion, skill_name = ''Religion'', skill_ability = A_int\<rparr>,
     \<lparr>skill_key = sleight_of_hand, skill_name = ''Sleight of Hand'', skill_ability = A_dex\<rparr>,
     \<lparr>skill_key = stealth, skill_name = ''Stealth'', skill_ability = A_dex\<rparr>,
     \<lparr>skill_key = survival, skill_name = ''Survival'', skill_ability = A_wis\<rparr>]"

datatype CoinKey = bronze | silver | gold | diamond

definition COIN_KEYS :: "CoinKey list" where
  "COIN_KEYS = [bronze, silver, gold, diamond]"

fun coinKeyName :: "CoinKey \<Rightarrow> string" where
  "coinKeyName bronze = ''bronze''"
| "coinKeyName silver = ''silver''"
| "coinKeyName gold = ''gold''"
| "coinKeyName diamond = ''diamond''"

type_synonym Abilities = "(AbilityKey \<times> jsnum) list"
type_synonym SkillProficiencies = "(SkillKey \<times> bool) list"
type_synonym SaveProficiencies = "(AbilityKey \<times> bool) list"
type_synonym Bank = "(CoinKey \<times> jsnum) list"

definition LEVEL :: jsnum where
  "LEVEL = Fin 5"

text \<open>
  The fields \<open>id\<close>, \<open>name\<close>, \<open>range\<close> and \<open>notes\<close> carry the name of their type: several
  types have the first two, \<open>id\<close> and \<open>range\<close> are constants of HOL and \<open>notes\<close> is a keyword.
\<close>

record Spell =
  spell_id :: string
  spell_name :: string
  essence :: string
  mpTier :: MpTier
  mpCost :: jsnum
  damage :: string
  spell_range :: string
  description :: string

record Armor =
  armor_id :: string
  armor_name :: string
  acBonus :: jsnum
  effect :: string
  abilityBonuses :: "(AbilityKey \<times> jsnum) list"

text \<open>
  \<open>equippedWeaponId\<close>, \<open>equippedArmorId\<close> and the legacy \<open>weapons\<close> and \<open>armors\<close> are
  copied from the input without inspection, so they hold any value.
\<close>

record Character =
  char_id :: string
  publicCode :: string
  char_name :: string
  race :: string
  subtype :: string
  rank :: Rank
  partyName :: string
  partyMembers :: "string list"
  partyMemberCodes :: "string list"
  missionDirective :: string
  char_notes :: string
  level :: jsnum
  maxHp :: jsnum
  maxMp :: jsnum
  currentHp :: jsnum
  currentMp :: jsnum
  abilitiesBase :: Abilities
  skillProficiencies :: SkillProficiencies
  saveProficiencies :: SaveProficiencies
  knownSpellIds :: "string list"
  passiveIds :: "string list"
  equippedWeaponId :: jsval
  equippedArmorId :: jsval
  personalBank :: Bank
  partyBank :: Bank
  weapons :: jsval
  armors :: jsval


section \<open>Helpers\<close>

text \<open>\<open>while (xs.length < n) xs.push("")\<close>\<close>

function padTo :: "nat \<Rightarrow> string list \<Rightarrow> string list" where
  "padTo n xs = (if length xs < n then padTo n (xs @ [[]]) else xs)"
  by pat_completeness auto
termination
  by (relation "measure (\<lambda>(n, xs). n - length xs)") auto

declare padTo.simps [simp del]

text \<open>
  \<open>targetLen\<close> is absent (\<open>None\<close>) or a count, the only arguments the program passes.
\<close>

definition normalizeStringArray :: "host \<Rightarrow> jsval \<Rightarrow> nat option \<Rightarrow> string list" where
  "normalizeStringArray h input targetLen =
     (let arr = (case input of Arr xs \<Rightarrow> xs | _ \<Rightarrow> []);
          out = map (\<lambda>x. trim (js_String h (coalesce x (Str [])))) arr
      in case targetLen of
           Some n \<Rightarrow> padTo n (take n out)
         | None \<Rightarrow> filter (\<lambda>s. s \<noteq> []) out)"

definition cryptoRandomId :: "host \<Rightarrow> string" where
  "cryptoRandomId h = (if hasRandomUUID h then randomUUID h else mathRandomId h)"

definition clamp :: "jsnum \<Rightarrow> jsnum \<Rightarrow> jsnum \<Rightarrow> jsnum" where
  "clamp n mn mx = (if \<not> isFiniteNum n then mn else Math_max mn (Math_min mx n))"


text \<open>The cast \<open>v as number\<close>, reached only under \<open>Number.isFinite(v)\<close>.\<close>

fun asNumber :: "jsval \<Rightarrow> jsnum" where
  "asNumber (Num n) = n"
| "asNumber v = NaN"

section \<open>Normalizers\<close>

definition normalizeMpTier :: "host \<Rightarrow> jsval \<Rightarrow> MpTier" where
  "normalizeMpTier h v =
     (let raw = toLowerCase (trim (js_String h (coalesce v (Str []))));
          hit = find (\<lambda>t. toLowerCase (mpTierName t) = raw) MP_TIERS
      in case hit of Some t \<Rightarrow> t | None \<Rightarrow> MpNone)"

definition normalizeSpell :: "host \<Rightarrow> jsval \<Rightarrow> Spell" where
  "normalizeSpell h s =
     (let tier = normalizeMpTier h (get s ''mpTier'');
          cost = MP_TIER_TO_COST tier
      in \<lparr>spell_id = js_String h (coalesce (get s ''id'') (Str (randomUUID h))),
          spell_name = trim (js_String h (coalesce (get s ''name'') (Str []))),
          essence = trim (js_String h (coalesce (get s ''essence'') (Str []))),
          mpTier = tier,
          mpCost = cost,
          damage = trim (js_String h (coalesce (get s ''damage'') (Str []))),
          spell_range = trim (js_String h (coalesce (get s ''range'') (Str []))),
          description = trim (js_String h (coalesce (get s ''description'') (Str [])))\<rparr>)"

definition normalizeAbilityBonuses :: "host \<Rightarrow> jsval \<Rightarrow> (AbilityKey \<times> jsnum) list" where
  "normalizeAbilityBonuses h b =
     foldl (\<lambda>out k.
              let n = js_Number h (get b (abilityKeyName k))
              in if isFiniteNum n \<and> n \<noteq> Fin 0 then AList.update k n out else out)
       [] ABILITY_KEYS"

definition normalizeArmor :: "host \<Rightarrow> jsval \<Rightarrow> Armor" where
  "normalizeArmor h a =
     (let n = js_Number h (get a ''acBonus'')
      in \<lparr>armor_id = js_String h (coalesce (get a ''id'') (Str (randomUUID h))),
          armor_name = trim (js_String h (coalesce (get a ''name'') (Str []))),
          acBonus = (if isFiniteNum n then n else Fin 0),
          effect = trim (js_String h (coalesce (get a ''effect'') (Str []))),
          abilityBonuses = normalizeAbilityBonuses h (get a ''abilityBonuses'')\<rparr>)"

definition normalizeRace :: "host \<Rightarrow> jsval \<Rightarrow> Race" where
  "normalizeRace h r =
     (let raw = toLowerCase (trim (js_String h (coalesce r (Str []))));
          hit = find (\<lambda>x. toLowerCase (raceName x) = raw) RACES
      in case hit of Some x \<Rightarrow> x | None \<Rightarrow> Human)"

definition normalizeRank :: "host \<Rightarrow> jsval \<Rightarrow> Rank" where
  "normalizeRank h r =
     (let raw = toLowerCase (trim (js_String h (coalesce r (Str []))));
          hit = find (\<lambda>x. toLowerCase (rankName x) = raw) RANKS
      in case hit of Some x \<Rightarrow> x | None \<Rightarrow> Bronze)"

definition normalizeAbilitiesBase :: "host \<Rightarrow> jsval \<Rightarrow> Abilities" where
  "normalizeAbilitiesBase h v =
     (let fallback = [(A_str, Fin 10), (A_dex, Fin 10), (A_con, Fin 10),
                      (A_int, Fin 10), (A_wis, Fin 10), (A_cha, Fin 10)]
      in foldl (\<lambda>out k.
                  let n = js_Number h (get v (abilityKeyName k))
                  in AList.update k
                       (if isFiniteNum n then clamp n (Fin 1) (Fin 30)
                        else the (map_of fallback k)) out)
           [] ABILITY_KEYS)"

definition emptySkillProfs :: SkillProficiencies where
  "emptySkillProfs = foldl (\<lambda>out s. AList.update (skill_key s) False out) [] SKILLS"

definition emptySaveProfs :: SaveProficiencies where
  "emptySaveProfs = foldl (\<lambda>out k. AList.update k False out) [] ABILITY_KEYS"

definition normalizeSkillProfs :: "jsval \<Rightarrow> SkillProficiencies" where
  "normalizeSkillProfs v =
     foldl (\<lambda>base s.
              AList.update (skill_key s) (js_Boolean (get v (skillKeyName (skill_key s)))) base)
       emptySkillProfs SKILLS"

definition normalizeSaveProfs :: "jsval \<Rightarrow> SaveProficiencies" where
  "normalizeSaveProfs v =
     foldl (\<lambda>base k. AList.update k (js_Boolean (get v (abilityKeyName k))) base)
       emptySaveProfs ABILITY_KEYS"

definition emptyBank :: Bank where
  "emptyBank = [(bronze, Fin 0), (silver, Fin 0), (gold, Fin 0), (diamond, Fin 0)]"

definition normalizeBank :: "host \<Rightarrow> jsval \<Rightarrow> Bank" where
  "normalizeBank h v =
     foldl (\<lambda>base k.
              let n = js_Number h (get v (coinKeyName k))
              in AList.update k
                   (if isFiniteNum n then Math_max (Fin 0) (Math_floor n) else Fin 0) base)
       emptyBank COIN_KEYS"


text \<open>The character class \<open>[A-Z0-9]\<close>.\<close>

definition isUpperAlnum :: "char \<Rightarrow> bool" where
  "isUpperAlnum c =
     (let n = of_char c :: nat in (65 \<le> n \<and> n \<le> 90) \<or> (48 \<le> n \<and> n \<le> 57))"

definition normalizePublicCode :: "host \<Rightarrow> jsval \<Rightarrow> string" where
  "normalizePublicCode h v =
     (let raw = toUpperCase (trim (js_String h (coalesce v (Str []))))
      in take 16 (filter isUpperAlnum raw))"

definition normalizePartyMemberCodes :: "host \<Rightarrow> jsval \<Rightarrow> string list" where
  "normalizePartyMemberCodes h v =
     (let arr = (case v of Arr xs \<Rightarrow> map (normalizePublicCode h) xs | _ \<Rightarrow> []);
          out = padTo 4 arr
      in take 4 out)"

text \<open>\<open>b.toString(16)\<close> of a byte and \<open>s.padStart(n, c)\<close>.\<close>

definition hexDigit :: "nat \<Rightarrow> char" where
  "hexDigit n = ''0123456789abcdef'' ! (n mod 16)"

definition toString16 :: "8 word \<Rightarrow> string" where
  "toString16 b =
     (let n = unat b
      in if n < 16 then [hexDigit n] else [hexDigit (n div 16), hexDigit (n mod 16)])"

definition padStart :: "nat \<Rightarrow> char \<Rightarrow> string \<Rightarrow> string" where
  "padStart n c s = replicate (n - length s) c @ s"

definition generatePublicCode :: "host \<Rightarrow> string" where
  "generatePublicCode h =
     (let bytes = map (getRandomValues h) [0..<6]
      in toUpperCase (concat (map (\<lambda>b. padStart 2 (CHR ''0'') (toString16 b)) bytes)))"

text \<open>
  The parameter of \<open>normalizeCharacter\<close> has type \<open>Partial<Character>\<close>: an object, whose
  fields the body reads as \<open>any\<close>. (\<open>null\<close> and \<open>undefined\<close> are not of that type; the
  unguarded read \<open>c.id\<close> would raise a TypeError on them.)
\<close>

definition normalizeCharacter :: "host \<Rightarrow> jsobj \<Rightarrow> Character" where
  "normalizeCharacter h c0 =
     (let c = Obj c0;
          raceText =
            (let r = trim (js_String h (coalesce (get c ''race'') (Str [])))
             in if r = [] then ''Human'' else r);
          presetKey = normalizeRace h (Str raceText);
          defaults = getRaceStats (raceName presetKey);
          level' =
            (if Number_isFinite (get c ''level'')
             then clamp (asNumber (get c ''level'')) (Fin 1) (Fin 20) else LEVEL);
          maxHp' =
            (if Number_isFinite (get c ''maxHp'')
             then clamp (asNumber (get c ''maxHp'')) (Fin 0) (Fin 9999) else hp defaults);
          maxMp' =
            (if Number_isFinite (get c ''maxMp'')
             then clamp (asNumber (get c ''maxMp'')) (Fin 0) (Fin 9999) else mp defaults);
          rawHp =
            (if Number_isFinite (get c ''currentHp'')
             then asNumber (get c ''currentHp'') else maxHp');
          rawMp =
            (if Number_isFinite (get c ''currentMp'')
             then asNumber (get c ''currentMp'') else maxMp');
          code =
            toUpperCase (trim (js_String h
              (coalesce (coalesce (get c ''publicCode'') (get c ''public_code'')) (Str []))))
      in \<lparr>char_id = js_String h (coalesce (get c ''id'') (Str (cryptoRandomId h))),
          publicCode = (if code = [] then generatePublicCode h else code),
          char_name = trim (js_String h (coalesce (get c ''name'') (Str []))),
          race = raceText,
          subtype = trim (js_String h (coalesce (get c ''subtype'') (Str []))),
          rank = normalizeRank h (get c ''rank''),
          partyName = trim (js_String h (coalesce (get c ''partyName'') (Str []))),
          partyMembers = normalizeStringArray h (get c ''partyMembers'') (Some 4),
          partyMemberCodes =
            map (\<lambda>s. toUpperCase (trim (js_String h (Str s))))
              (normalizeStringArray h (get c ''partyMemberCodes'') (Some 4)),
          missionDirective =
            trim (js_String h (coalesce (get c ''missionDirective'') (Str []))),
          char_notes = js_String h (coalesce (get c ''notes'') (Str [])),
          level = level',
          maxHp = maxHp',
          maxMp = maxMp',
          currentHp = clamp rawHp (Fin 0) maxHp',
          currentMp = clamp rawMp (Fin 0) maxMp',
          abilitiesBase = normalizeAbilitiesBase h (get c ''abilitiesBase''),
          skillProficiencies = normalizeSkillProfs (get c ''skillProficiencies''),
          saveProficiencies = normalizeSaveProfs (get c ''saveProficiencies''),
          knownSpellIds = normalizeStringArray h (get c ''knownSpellIds'') None,
          passiveIds = normalizeStringArray h (get c ''passiveIds'') None,
          equippedWeaponId = coalesce (get c ''equippedWeaponId'') Null,
          equippedArmorId = coalesce (get c ''equippedArmorId'') Null,
          personalBank = normalizeBank h (get c ''personalBank''),
          partyBank = normalizeBank h (get c ''partyBank''),
          weapons = get c ''weapons'',
          armors = get c ''armors''\<rparr>)"

section \<open>Characters as objects, and the mutations of the character sheet\<close>

text \<open>
  A \<open>Character\<close> is a JavaScript object; \<open>character_obj\<close> is that object, which
  \<open>{...c, ...updates}\<close> spreads and \<open>normalizeCharacter\<close> reads again.
\<close>

definition bank_obj :: "Bank \<Rightarrow> jsval" where
  "bank_obj b = Obj (map (\<lambda>(k, n). (coinKeyName k, Num n)) b)"

definition character_obj :: "Character \<Rightarrow> jsobj" where
  "character_obj c =
    [(''id'', Str (char_id c)),
     (''publicCode'', Str (publicCode c)),
     (''name'', Str (char_name c)),
     (''race'', Str (race c)),
     (''subtype'', Str (subtype c)),
     (''rank'', Str (rankName (rank c))),
     (''partyName'', Str (partyName c)),
     (''partyMembers'', Arr (map Str (partyMembers c))),
     (''partyMemberCodes'', Arr (map Str (partyMemberCodes c))),
     (''missionDirective'', Str (missionDirective c)),
     (''notes'', Str (char_notes c)),
     (''level'', Num (level c)),
     (''maxHp'', Num (maxHp c)),
     (''maxMp'', Num (maxMp c)),
     (''currentHp'', Num (currentHp c)),
     (''currentMp'', Num (currentMp c)),
     (''abilitiesBase'', Obj (map (\<lambda>(k, n). (abilityKeyName k, Num n)) (abilitiesBase c))),
     (''skillProficiencies'',
        Obj (map (\<lambda>(k, b). (skillKeyName k, Bool b)) (skillProficiencies c))),
     (''saveProficiencies'',
        Obj (map (\<lambda>(k, b). (abilityKeyName k, Bool b)) (saveProficiencies c))),
     (''knownSpellIds'', Arr (map Str (knownSpellIds c))),
     (''passiveIds'', Arr (map Str (passiveIds c))),
     (''equippedWeaponId'', equippedWeaponId c),
     (''equippedArmorId'', equippedArmorId c),
     (''personalBank'', bank_obj (personalBank c)),
     (''partyBank'', bank_obj (partyBank c)),
     (''weapons'', weapons c),
     (''armors'', armors c)]"

text \<open>
  \<open>updateSelectedCharacter\<close> replaces the selected character by
  \<open>normalizeCharacter({...c, ...updates})\<close>, here \<open>nextCharacter\<close>.
\<close>

definition nextCharacter :: "host \<Rightarrow> Character \<Rightarrow> jsobj \<Rightarrow> Character" where
  "nextCharacter h c updates = normalizeCharacter h (spread (character_obj c) updates)"

definition updateSelectedCharacter ::
  "host \<Rightarrow> string option \<Rightarrow> Character list \<Rightarrow> jsobj \<Rightarrow> Character list" where
  "updateSelectedCharacter h selectedCharacterId prev updates =
     (case selectedCharacterId of
        None \<Rightarrow> prev
      | Some sid \<Rightarrow>
          if sid = [] then prev
          else map (\<lambda>c. if char_id c \<noteq> sid then c else nextCharacter h c updates) prev)"

text \<open>
  A handler of the sheet either returns early or calls \<open>onUpdateCharacter(updates)\<close> once:
  its model returns the updates, \<open>None\<close> for the early return. \<open>dispatch\<close> is the effect on
  the character shown.
\<close>

definition dispatch :: "host \<Rightarrow> Character \<Rightarrow> jsobj option \<Rightarrow> Character" where
  "dispatch h c r = (case r of None \<Rightarrow> c | Some updates \<Rightarrow> nextCharacter h c updates)"



text \<open>
  \<open>castSpell\<close> is stated with the exact difference \<open>js_sub\<close>: the spells it is given come from
  \<open>normalizeSpell\<close>, their cost is an integer of the table, not above \<open>currentMp\<close>, and there
  the double difference is the exact one (lemma \<open>ieee_sub_cost_exact\<close>).
\<close>

definition castSpell :: "Character \<Rightarrow> Spell \<Rightarrow> jsobj option" where
  "castSpell character spell =
     (if js_less (currentMp character) (mpCost spell) then None
      else Some [(''currentMp'',
                  Num (clamp (js_sub (currentMp character) (mpCost spell)) (Fin 0)
                         (maxMp character)))])"

definition confirmEatCoin :: "Character \<Rightarrow> CoinKey \<Rightarrow> jsobj option" where
  "confirmEatCoin character eatCoinType =
     (let personal = personalBank character;
          current = (case map_of personal eatCoinType of Some n \<Rightarrow> n | None \<Rightarrow> Fin 0)
      in if js_le current (Fin 0) then None
         else
           (let nextPersonal = AList.update eatCoinType (ieee_sub current (Fin 1)) personal
            in Some [(''personalBank'', bank_obj nextPersonal),
                     (''currentMp'', Num (maxMp character))]))"


section \<open>A host to run the model on examples\<close>

text \<open>
  The theorems below hold for every host. \<open>sampleHost\<close> is one host, for the examples:
  it prints and parses integers in decimal as JavaScript does, which is all the examples
  print or parse (another finite value is printed by its integer part, another string is
  parsed as NaN).
\<close>

function showNat :: "nat \<Rightarrow> string" where
  "showNat n =
     (if n < 10 then [''0123456789'' ! n]
      else showNat (n div 10) @ [''0123456789'' ! (n mod 10)])"
  by pat_completeness auto
termination
  by (relation "measure (\<lambda>n. n)") auto

declare showNat.simps [simp del]

definition sampleNumberToString :: "jsnum \<Rightarrow> string" where
  "sampleNumberToString n =
     (case n of
        NaN \<Rightarrow> ''NaN''
      | PosInf \<Rightarrow> ''Infinity''
      | NegInf \<Rightarrow> ''-Infinity''
      | Fin q \<Rightarrow>
          (let i = \<lfloor>q\<rfloor> in if i < 0 then CHR ''-'' # showNat (nat (- i)) else showNat (nat i)))"

definition isDigit :: "char \<Rightarrow> bool" where
  "isDigit c = (let n = of_char c :: nat in 48 \<le> n \<and> n \<le> 57)"

definition parseNat :: "string \<Rightarrow> nat" where
  "parseNat s = foldl (\<lambda>acc c. acc * 10 + (of_char c - 48)) 0 s"

definition sampleStringToNumber :: "string \<Rightarrow> jsnum" where
  "sampleStringToNumber s =
     (let t = trim s
      in if t = [] then Fin 0
         else if list_all isDigit t then Fin (of_nat (parseNat t))
         else if hd t = CHR ''-'' \<and> tl t \<noteq> [] \<and> list_all isDigit (tl t)
           then Fin (- of_nat (parseNat (tl t)))
         else NaN)"

definition sampleHost :: host where
  "sampleHost =
     \<lparr>numberToString = sampleNumberToString,
      stringToNumber = sampleStringToNumber,
      hasRandomUUID = True,
      randomUUID = ''3b241101-e2bb-4255-8caf-4136c566a962'',
      mathRandomId = ''k3j9x2lq8m4lz1f0a2b'',
      getRandomValues = (\<lambda>i. [0x1F, 0xA0, 0x07, 0xC3, 0x5E, 0xB2] ! (i mod 6))\<rparr>"


section \<open>Predicates of the statements and proofs\<close>

text \<open>
  \<open>trimmed\<close> holds of the strings \<open>trim\<close> returns, \<open>hexUpper\<close> of the characters of a
  generated public code. \<open>abilityScore\<close> and \<open>bankCount\<close> name what one round of the loops
  of \<open>normalizeAbilitiesBase\<close> and \<open>normalizeBank\<close> stores. \<open>normalized\<close> is the invariant
  of the characters the application holds: every one of them comes out of
  \<open>normalizeCharacter\<close>. \<open>isInteger\<close> is \<open>Number.isInteger\<close>.
\<close>

definition trimmed :: "string \<Rightarrow> bool" where
  "trimmed s = (s = [] \<or> (\<not> isWhiteSpace (hd s) \<and> \<not> isWhiteSpace (last s)))"

definition hexUpper :: "char \<Rightarrow> bool" where
  "hexUpper c = (let n = of_char c :: nat in (48 \<le> n \<and> n \<le> 57) \<or> (65 \<le> n \<and> n \<le> 70))"

definition abilityScore :: "jsnum \<Rightarrow> rat" where
  "abilityScore n = (case n of Fin q \<Rightarrow> max 1 (min 30 q) | _ \<Rightarrow> 10)"

definition bankCount :: "jsnum \<Rightarrow> int" where
  "bankCount n = (case n of Fin q \<Rightarrow> max 0 \<lfloor>q\<rfloor> | _ \<Rightarrow> 0)"

definition normalized :: "Character \<Rightarrow> bool" where
  "normalized c \<longleftrightarrow>
     publicCode c \<noteq> [] \<and> trimmed (publicCode c) \<and> toUpperCase (publicCode c) = publicCode c \<and>
     trimmed (char_name c) \<and> race c \<noteq> [] \<and> trimmed (race c) \<and> trimmed (subtype c) \<and>
     trimmed (partyName c) \<and> trimmed (missionDirective c) \<and>
     length (partyMembers c) = 4 \<and> list_all trimmed (partyMembers c) \<and>
     length (partyMemberCodes c) = 4 \<and>
     list_all (\<lambda>s. trimmed s \<and> toUpperCase s = s) (partyMemberCodes c) \<and>
     (\<exists>l. level c = Fin l \<and> 1 \<le> l \<and> l \<le> 20) \<and>
     (\<exists>m q. maxHp c = Fin m \<and> currentHp c = Fin q \<and> 0 \<le> q \<and> q \<le> m \<and> m \<le> 9999) \<and>
     (\<exists>m q. maxMp c = Fin m \<and> currentMp c = Fin q \<and> 0 \<le> q \<and> q \<le> m \<and> m \<le> 9999) \<and>
     (\<exists>f. abilitiesBase c = map (\<lambda>k. (k, Fin (f k))) ABILITY_KEYS \<and> (\<forall>k. 1 \<le> f k \<and> f k \<le> 30)) \<and>
     (\<exists>f. skillProficiencies c = map (\<lambda>s. (skill_key s, f (skill_key s))) SKILLS) \<and>
     (\<exists>f. saveProficiencies c = map (\<lambda>k. (k, f k)) ABILITY_KEYS) \<and>
     list_all (\<lambda>s. trimmed s \<and> s \<noteq> []) (knownSpellIds c) \<and>
     list_all (\<lambda>s. trimmed s \<and> s \<noteq> []) (passiveIds c) \<and>
     equippedWeaponId c \<noteq> Undefined \<and> equippedArmorId c \<noteq> Undefined \<and>
     (\<exists>f. personalBank c = map (\<lambda>k. (k, Fin (of_int (f k)))) COIN_KEYS \<and> (\<forall>k. 0 \<le> f k)) \<and>
     (\<exists>f. partyBank c = map (\<lambda>k. (k, Fin (of_int (f k)))) COIN_KEYS \<and> (\<forall>k. 0 \<le> f k))"

definition isInteger :: "jsnum \<Rightarrow> bool" where
  "isInteger n = (case n of Fin q \<Rightarrow> of_int \<lfloor>q\<rfloor> = q | _ \<Rightarrow> False)"

section \<open>Lemmas\<close>

subsection \<open>Rounding to a double is exact on small integers and their halves\<close>

lemma expo_bounds:
  assumes "0 < x"
  shows "2 powi (expo x) \<le> x \<and> x < 2 powi (expo x + 1)"
proof (cases "1 \<le> x")
  case True
  define n where "n = \<lfloor>x\<rfloor>"
  have n: "1 \<le> n" "of_int n \<le> x" "x < of_int n + 1"
    using True floor_correct [of x] by (simp_all add: n_def le_floor_iff)
  define b where "b = bitlen n"
  have bb: "2 ^ nat (b - 1) \<le> n" "n < 2 ^ nat b"
    using bitlen_bounds [of n] n(1) by (simp_all add: b_def)
  have b1: "1 \<le> b" using n(1) bitlen_eq_zero_iff [of n] bitlen_nonneg [of n] by (simp add: b_def) 
  have e: "expo x = b - 1" using True by (simp add: expo_def b_def n_def)
  have "(2::rat) powi (b - 1) = of_int (2 ^ nat (b - 1))"
    using b1 by (simp add: power_int_nonneg_exp)
  also have "\<dots> \<le> of_int n" using bb(1) by (simp only: of_int_le_iff)
  finally have lo: "2 powi (b - 1) \<le> x" using n(2) by simp
  have "of_int n + 1 \<le> (of_int (2 ^ nat b) :: rat)"
    using bb(2) by (metis of_int_1 of_int_add of_int_le_iff zless_imp_add1_zle)
  also have "\<dots> = 2 powi b" using b1 by (simp add: power_int_nonneg_exp)
  finally have hi: "x < 2 powi b" using n(3) by simp
  show ?thesis using lo hi by (simp add: e)
next
  case False
  define y where "y = 1 / x"
  have y1: "1 < y" using False assms by (simp add: y_def)
  define m where "m = \<lceil>y\<rceil> - 1"
  have m: "1 \<le> m" "of_int m < y" "y \<le> of_int m + 1"
    using y1 ceiling_correct [of y] by (simp_all add: m_def less_ceiling_iff)
  define b where "b = bitlen m"
  have bb: "2 ^ nat (b - 1) \<le> m" "m < 2 ^ nat b"
    using bitlen_bounds [of m] m(1) by (simp_all add: b_def)
  have b1: "1 \<le> b" using m(1) bitlen_eq_zero_iff [of m] bitlen_nonneg [of m] by (simp add: b_def)
  have e: "expo x = - b" using False by (simp add: expo_def b_def m_def y_def)
  have yhi: "y \<le> 2 ^ nat b"
  proof -
    have "of_int m + 1 \<le> (of_int (2 ^ nat b) :: rat)"
      using bb(2) by (metis of_int_1 of_int_add of_int_le_iff zless_imp_add1_zle)
    then show ?thesis using m(3) by simp
  qed
  have ylo: "2 ^ nat (b - 1) < y"
  proof -
    have "(2 ^ nat (b - 1) :: rat) \<le> of_int m"
      using bb(1) by (metis of_int_le_iff of_int_numeral of_int_power)
    then show ?thesis using m(2) by linarith
  qed
  have x: "x = 1 / y" using assms by (simp add: y_def)
  have "(2::rat) powi (- b) = 1 / 2 ^ nat b"
    using b1 by (simp add: power_int_minus_divide power_int_nonneg_exp)
  also have "\<dots> \<le> 1 / y" using yhi y1 by (simp add: frac_le)
  finally have lo: "2 powi (- b) \<le> x" using x by simp
  have p1: "(2::rat) powi (- (b - 1)) = 1 / 2 powi (b - 1)" by (rule power_int_minus_divide)
  have p2: "(2::rat) powi (b - 1) = 2 ^ nat (b - 1)" using b1 by (simp add: power_int_nonneg_exp)
  have p3: "- (b - 1) = - b + 1" by simp
  have "x < 1 / 2 ^ nat (b - 1)" unfolding x using ylo by (simp add: frac_less2)
  then have hi: "x < 2 powi (- b + 1)" using p1 p2 p3 by metis
  show ?thesis using lo hi by (simp add: e)
qed

lemma roundEven_of_int [simp]: "roundEven (of_int m) = m"
  by (simp add: roundEven_def)

lemma roundEven_minus: "roundEven (- y) = - roundEven y"
proof (cases "y = of_int \<lfloor>y\<rfloor>")
  case True
  then obtain m where "y = of_int m" ..
  then show ?thesis by (simp flip: of_int_minus)
next
  case False
  then have f: "\<lfloor>- y\<rfloor> = - \<lfloor>y\<rfloor> - 1"
    using False by (simp add: floor_minus ceiling_altdef)
  define f where "f = \<lfloor>y\<rfloor>"
  define d where "d = y - of_int f"
  have y: "y = of_int f + d" by (simp add: d_def)
  have "of_int f \<le> y" "y < of_int f + 1" "y \<noteq> of_int f"
    using False floor_correct [of y] by (simp_all add: f_def)
  then have d: "0 < d" "d < 1" by (simp_all add: d_def)
  show ?thesis
    unfolding roundEven_def Let_def f f_def [symmetric]
    unfolding y using d by (simp add: algebra_simps) 
qed

lemma ulp_minus [simp]: "ulp (- x) = ulp x"
  by (simp add: ulp_def)

lemma ulp_pos [simp]: "0 < ulp x"
  by (simp add: ulp_def)

lemma ulp_nonzero [simp]: "ulp x \<noteq> 0"
  by (simp add: ulp_def)

lemma roundRat_minus: "roundRat (- x) = - roundRat x"
  by (simp add: roundRat_def roundEven_minus)

lemma pow2_less_cancel: "(2::rat) powi a < 2 powi b \<Longrightarrow> a < b"
  using power_int_increasing [of b a "2::rat"] by (cases "a < b") simp_all

lemma roundRat_exact_pos:
  assumes k: "0 < k" "k < 2 ^ 53" and j: "- 1074 \<le> j"
  shows "roundRat (of_int k * 2 powi j) = of_int k * 2 powi j"
proof -
  define x :: rat where "x = of_int k * 2 powi j"
  have xpos: "0 < x" using k(1) by (simp add: x_def)
  define E where "E = max (expo x) (- 1022)"
  have u: "ulp x = 2 powi (E - 52)" using xpos by (simp add: ulp_def E_def)
  have "2 powi (expo x) \<le> x" using expo_bounds [OF xpos] by simp
  also have "x < 2 ^ 53 * 2 powi j"
    unfolding x_def using k(2) by (simp add: of_int_less_numeral_power_cancel_iff)
  also have "\<dots> = 2 powi (53 + j)" by (simp add: power_int_add)
  finally have "expo x < 53 + j" by (rule pow2_less_cancel)
  then have d: "0 \<le> j - E + 52" using j by (simp add: E_def)
  define m where "m = k * 2 ^ nat (j - E + 52)"
  have "x / ulp x = of_int k * (2 powi j / 2 powi (E - 52))" unfolding u by (simp add: x_def)
  also have "2 powi j / (2 powi (E - 52) :: rat) = 2 powi (j - (E - 52))"
    by (simp add: power_int_diff)
  also have "\<dots> = 2 ^ nat (j - E + 52)"
    using d by (simp add: power_int_nonneg_exp algebra_simps)
  finally have q: "x / ulp x = of_int m" by (simp add: m_def)
  have "roundRat x = of_int m * ulp x"
    using xpos unfolding roundRat_def q by simp
  also have "\<dots> = x / ulp x * ulp x" by (simp only: q)
  also have "\<dots> = x" by simp
  finally show ?thesis by (simp add: x_def)
qed

lemma roundRat_exact:
  assumes "\<bar>k\<bar> < 2 ^ 53" and "- 1074 \<le> j"
  shows "roundRat (of_int k * 2 powi j) = of_int k * 2 powi j"
proof -
  consider "k = 0" | "0 < k" | "k < 0" by linarith
  then show ?thesis
  proof cases
    case 1
    then show ?thesis by (simp add: roundRat_def)
  next
    case 2
    with assms show ?thesis by (simp add: roundRat_exact_pos)
  next
    case 3
    with assms have "roundRat (of_int (- k) * 2 powi j) = of_int (- k) * 2 powi j"
      by (intro roundRat_exact_pos) simp_all
    then show ?thesis using roundRat_minus [of "of_int k * 2 powi j"] by simp
  qed
qed

lemma roundRat_int:
  assumes "\<bar>n\<bar> \<le> 2 ^ 53"
  shows "roundRat (of_int n) = of_int n"
proof (cases "\<bar>n\<bar> = 2 ^ 53")
  case True
  then have "n = 2 ^ 52 * 2 \<or> n = - (2 ^ 52) * 2" by (auto simp: abs_if split: if_splits)
  then show ?thesis
    using roundRat_exact [of "2 ^ 52" 1] roundRat_exact [of "- (2 ^ 52)" 1] by auto
next
  case False
  with assms have "\<bar>n\<bar> < 2 ^ 53" by simp
  then show ?thesis using roundRat_exact [of n 0] by simp
qed


lemma expo_zero [simp]: "expo 0 = 0"
  by (simp add: expo_def bitlen_def floorlog_def)

lemma toDouble_alt:
  "toDouble x =
     (let r = roundRat x
      in if 2 ^ 1024 \<le> \<bar>r\<bar> then (if 0 < r then PosInf else NegInf) else Fin r)"
proof -
  have "1024 \<le> expo \<bar>r\<bar> \<longleftrightarrow> 2 ^ 1024 \<le> \<bar>r\<bar>" for r :: rat
  proof (cases "r = 0")
    case True
    then show ?thesis by simp
  next
    case False
    then have p: "0 < \<bar>r\<bar>" by simp
    show ?thesis
    proof
      assume "1024 \<le> expo \<bar>r\<bar>"
      then have "(2::rat) powi 1024 \<le> 2 powi (expo \<bar>r\<bar>)" by (intro power_int_increasing) simp_all
      also have "\<dots> \<le> \<bar>r\<bar>" using expo_bounds [OF p] by simp
      finally show "2 ^ 1024 \<le> \<bar>r\<bar>" by simp
    next
      assume "2 ^ 1024 \<le> \<bar>r\<bar>"
      then have "(2::rat) powi 1024 \<le> \<bar>r\<bar>" by simp
      also have "\<bar>r\<bar> < 2 powi (expo \<bar>r\<bar> + 1)" using expo_bounds [OF p] by simp
      finally have "1024 < expo \<bar>r\<bar> + 1" by (rule pow2_less_cancel)
      then show "1024 \<le> expo \<bar>r\<bar>" by simp
    qed
  qed
  then show ?thesis by (simp add: toDouble_def)
qed

lemma toDouble_int:
  assumes "\<bar>n\<bar> \<le> 2 ^ 53"
  shows "toDouble (of_int n) = Fin (of_int n)"
proof -
  have "\<bar>rat_of_int n\<bar> \<le> 2 ^ 53"
    using assms by (metis of_int_abs of_int_le_iff of_int_numeral of_int_power)
  also have "\<dots> < (2 ^ 1024 :: rat)" by simp
  finally show ?thesis by (simp add: toDouble_alt roundRat_int [OF assms])
qed



lemma ieee_sub_int:
  assumes "\<bar>a\<bar> \<le> 2 ^ 53" and "\<bar>b\<bar> \<le> 2 ^ 53" and "\<bar>a - b\<bar> \<le> 2 ^ 53"
  shows "ieee_sub (Fin (of_int a)) (Fin (of_int b)) = Fin (of_int (a - b))"
  using toDouble_int [OF assms(1)] toDouble_int [OF assms(2)] toDouble_int [OF assms(3)]
  by (simp add: ieee_sub_def)


subsection \<open>The difference of a double and an integer below it is exact\<close>

lemma toDouble_fixD: "toDouble q = Fin q \<Longrightarrow> roundRat q = q"
  by (simp add: toDouble_alt Let_def split: if_splits)

lemma ieee_sub_cost_exact:
  assumes dq: "toDouble q = Fin q" and t0: "0 \<le> t" and tq: "of_int t \<le> q" and q53: "q < 2 ^ 53"
  shows "ieee_sub (Fin q) (Fin (of_int t)) = js_sub (Fin q) (Fin (of_int t))"
proof -
  have rq: "roundRat q = q" using dq by (rule toDouble_fixD)
  have "rat_of_int t < 2 ^ 53" using tq q53 by simp
  then have "t < 2 ^ 53" by (simp add: of_int_less_numeral_power_cancel_iff)
  then have dt: "toDouble (of_int t) = Fin (of_int t)" using t0 by (intro toDouble_int) simp
  define y where "y = q - of_int t"
  have y0: "0 \<le> y" and yq: "y \<le> q" using tq t0 by (simp_all add: y_def)
  have ry: "roundRat y = y"
  proof (cases "y = 0")
    case True
    then show ?thesis by (simp add: roundRat_def)
  next
    case False
    with y0 have ypos: "0 < y" by simp
    with yq have qpos: "0 < q" by simp
    define e where "e = max (expo q) (- 1022) - 52"
    define u :: rat where "u = 2 powi e"
    have upos: "0 < u" by (simp add: u_def)
    have uq: "ulp q = u" using qpos by (simp add: ulp_def u_def e_def)
    define K where "K = roundEven (q / u)"
    have qK: "q = of_int K * u" using rq qpos unfolding roundRat_def uq K_def by simp
    have "2 powi (expo q) \<le> q" using expo_bounds [OF qpos] by simp
    also have "q < 2 powi 53" using q53 by simp
    finally have ex: "expo q < 53" by (rule pow2_less_cancel)
    then have e0: "e \<le> 0" and e1: "- 1074 \<le> e" by (simp_all add: e_def)
    have "q < 2 powi (expo q + 1)" using expo_bounds [OF qpos] by simp
    also have "\<dots> \<le> 2 powi (e + 53)" by (rule power_int_increasing) (simp_all add: e_def)
    also have "\<dots> = 2 ^ 53 * u" by (simp add: u_def power_int_add)
    finally have "of_int K * u < 2 ^ 53 * u" unfolding qK [symmetric] .
    then have "rat_of_int K < 2 ^ 53" using upos by simp
    then have K53: "K < 2 ^ 53" by (simp add: of_int_less_numeral_power_cancel_iff)
    define m where "m = nat (- e)"
    have "u * 2 ^ m = 2 powi e * 2 powi (- e)"
      using e0 by (simp add: u_def m_def power_int_nonneg_exp)
    also have "\<dots> = 1" by (simp add: power_int_minus)
    finally have um: "u * 2 ^ m = 1" .
    define k' where "k' = K - t * 2 ^ m"
    have "of_int k' * u = of_int K * u - of_int t * (u * 2 ^ m)"
      by (simp add: k'_def algebra_simps)
    also have "\<dots> = y" unfolding um by (simp add: y_def qK)
    finally have yk: "y = of_int k' * 2 powi e" by (simp add: u_def)
    have "0 < rat_of_int k' * u" using ypos yk by (simp add: u_def)
    then have "0 < rat_of_int k'" using upos by (simp add: zero_less_mult_iff)
    then have k0: "0 < k'" by simp
    have "k' \<le> K" using t0 by (simp add: k'_def)
    with K53 have k53: "k' < 2 ^ 53" by simp
    show ?thesis unfolding yk by (rule roundRat_exact_pos [OF k0 k53 e1])
  qed
  have "\<bar>y\<bar> < 2 ^ 53" using y0 yq q53 by simp
  also have "(2::rat) ^ 53 < 2 ^ 1024" by simp
  finally have "toDouble y = Fin y" by (simp add: toDouble_alt ry)
  then show ?thesis by (simp add: ieee_sub_def dq dt y_def)
qed

subsection \<open>\<open>modFromScore\<close> on integers\<close>


subsection \<open>Trimming and upper case\<close>

lemma dropEnd_prefix: "\<exists>ys. t = rev (dropWhile P (rev t)) @ ys"
proof -
  have "rev t = takeWhile P (rev t) @ dropWhile P (rev t)" by simp
  then have "t = rev (takeWhile P (rev t) @ dropWhile P (rev t))" by (metis rev_rev_ident)
  then show ?thesis by (metis rev_append)
qed

lemma trimmed_trim: "trimmed (trim s)"
proof (cases "dropWhile isWhiteSpace s")
  case Nil
  show ?thesis unfolding trim_def trimmed_def Nil by simp
next
  case (Cons a as)
  have na: "\<not> isWhiteSpace a" using Cons by (metis hd_dropWhile list.distinct(1) list.sel(1))
  let ?d = "dropWhile isWhiteSpace (rev (a # as))"
  have ne: "?d \<noteq> []" using na by (simp add: dropWhile_append)
  then have hd: "\<not> isWhiteSpace (hd ?d)" by (metis hd_dropWhile)
  obtain ys where ys: "a # as = rev ?d @ ys" using dropEnd_prefix by blast
  have "hd (rev ?d) = a" using ys ne by (metis hd_append2 list.sel(1) rev_is_Nil_conv)
  moreover have "last (rev ?d) = hd ?d" using ne by (simp add: last_rev)
  ultimately show ?thesis using na hd ne by (simp add: trim_def trimmed_def Cons)
qed

lemma trim_trimmed: assumes "trimmed s" shows "trim s = s"
proof (cases s)
  case Nil
  then show ?thesis by (simp add: trim_def)
next
  case (Cons a as)
  with assms have h: "\<not> isWhiteSpace a" and l: "\<not> isWhiteSpace (last (a # as))"
    by (simp_all add: trimmed_def)
  have "rev (a # as) \<noteq> []" by simp
  then have "dropWhile isWhiteSpace (rev (a # as)) = rev (a # as)"
    using l by (metis dropWhile_eq_self_iff hd_rev)
  then show ?thesis using h Cons by (simp add: trim_def)
qed

lemma trim_trim: "trim (trim s) = trim s"
  by (simp add: trim_trimmed trimmed_trim)

lemma isWhiteSpace_toUpperChar: "isWhiteSpace (toUpperChar c) = isWhiteSpace c"
  by (auto simp: isWhiteSpace_def toUpperChar_def Let_def)

lemma toUpperChar_idem: "toUpperChar (toUpperChar c) = toUpperChar c"
  by (auto simp: toUpperChar_def Let_def)

lemma toUpperCase_idem: "toUpperCase (toUpperCase s) = toUpperCase s"
  by (simp add: toUpperCase_def toUpperChar_idem)

lemma trim_toUpperCase: "trim (toUpperCase s) = toUpperCase (trim s)"
  by (simp add: trim_def toUpperCase_def dropWhile_map rev_map comp_def isWhiteSpace_toUpperChar)

lemma trimmed_toUpperCase: "trimmed s \<Longrightarrow> trimmed (toUpperCase s)"
  by (metis trim_toUpperCase trim_trimmed trimmed_trim)

subsection \<open>The padding loop\<close>

lemma padTo_eq: "padTo n xs = xs @ replicate (n - length xs) []"
proof (induction n xs rule: padTo.induct)
  case (1 n xs)
  show ?case
  proof (cases "length xs < n")
    case True
    then have "n - length xs = Suc (n - Suc (length xs))" by simp
    with 1 True show ?thesis
      by (subst padTo.simps) simp
  next
    case False
    then show ?thesis by (subst padTo.simps) simp
  qed
qed

subsection \<open>Generated public codes\<close>

lemma hexDigit_in: "hexDigit n \<in> set ''0123456789abcdef''"
  unfolding hexDigit_def by (rule nth_mem) simp

lemma toString16_chars: "set (padStart 2 (CHR ''0'') (toString16 b)) \<subseteq> set ''0123456789abcdef''"
  using hexDigit_in by (auto simp: padStart_def toString16_def Let_def)

lemma toString16_ne: "padStart 2 (CHR ''0'') (toString16 b) \<noteq> []"
  by (auto simp: padStart_def toString16_def Let_def)

lemma toUpperChar_hex: "c \<in> set ''0123456789abcdef'' \<Longrightarrow> hexUpper (toUpperChar c)"
  by (auto simp: toUpperChar_def hexUpper_def Let_def)

lemma hexUpper_fix: "hexUpper c \<Longrightarrow> toUpperChar c = c \<and> \<not> isWhiteSpace c"
  by (auto simp: toUpperChar_def hexUpper_def isWhiteSpace_def Let_def)

lemma generatePublicCode_hex: "list_all hexUpper (generatePublicCode h)"
  using toString16_chars toUpperChar_hex
  by (auto simp: generatePublicCode_def Let_def toUpperCase_def list_all_iff)

lemma generatePublicCode_ne: "generatePublicCode h \<noteq> []"
  using toString16_ne by (simp add: generatePublicCode_def Let_def toUpperCase_def upt_rec)

lemma generatePublicCode_length: "length (generatePublicCode h) = 12"
  by (simp add: generatePublicCode_def Let_def toUpperCase_def upt_rec padStart_def toString16_def length_concat)

lemma hex_trimmed: "list_all hexUpper s \<Longrightarrow> trimmed s \<and> toUpperCase s = s"
  using hexUpper_fix
  by (cases s) (auto simp: trimmed_def toUpperCase_def list_all_iff map_idI)

subsection \<open>Clamping and the string arrays\<close>

lemma clamp_Fin: "clamp (Fin q) (Fin a) (Fin b) = Fin (max a (min b q))"
  by (simp add: clamp_def)


lemma coalesce_Str [simp]: "coalesce (Str s) d = Str s"
  by (simp add: coalesce_def nullish_def)

lemma normalizeRank_name: "normalizeRank h (Str (rankName r)) = r"
  by (cases r) (simp_all add: normalizeRank_def RANKS_def trim_def toLowerCase_def toLowerChar_def isWhiteSpace_def)

lemma trimmed_Nil [simp]: "trimmed []"
  by (simp add: trimmed_def)

lemma normalizeStringArray_Some_shape:
  "length (normalizeStringArray h v (Some n)) = n \<and> list_all trimmed (normalizeStringArray h v (Some n))"
proof -
  obtain arr where arr: "normalizeStringArray h v (Some n) =
      padTo n (take n (map (\<lambda>x. trim (js_String h (coalesce x (Str [])))) arr))"
    by (simp add: normalizeStringArray_def Let_def)
  have "list_all trimmed (take n (map (\<lambda>x. trim (js_String h (coalesce x (Str [])))) arr))"
    by (auto simp: list_all_iff trimmed_trim dest!: in_set_takeD)
  then show ?thesis unfolding arr padTo_eq by (auto simp: list_all_iff)
qed

lemma normalizeStringArray_None_shape:
  "list_all (\<lambda>s. trimmed s \<and> s \<noteq> []) (normalizeStringArray h v None)"
  by (auto simp: normalizeStringArray_def Let_def list_all_iff trimmed_trim split: jsval.splits)

lemma map_trim_trimmed: "list_all trimmed xs \<Longrightarrow> map (\<lambda>x. trim (js_String h (coalesce x (Str [])))) (map Str xs) = xs"
  by (induction xs) (simp_all add: trim_trimmed)

lemma normalizeStringArray_Some_fix:
  "length xs = n \<Longrightarrow> list_all trimmed xs \<Longrightarrow> normalizeStringArray h (Arr (map Str xs)) (Some n) = xs"
  by (simp add: normalizeStringArray_def Let_def padTo_eq map_trim_trimmed del: map_map)

lemma normalizeStringArray_None_fix:
  "list_all (\<lambda>s. trimmed s \<and> s \<noteq> []) xs \<Longrightarrow> normalizeStringArray h (Arr (map Str xs)) None = xs"
proof -
  assume a: "list_all (\<lambda>s. trimmed s \<and> s \<noteq> []) xs"
  then have "list_all trimmed xs" by (simp add: list_all_iff)
  then have "map (\<lambda>x. trim (js_String h (coalesce x (Str [])))) (map Str xs) = xs"
    by (rule map_trim_trimmed)
  moreover have "filter (\<lambda>s. s \<noteq> []) xs = xs" using a by (simp add: list_all_iff)
  ultimately show ?thesis by (simp add: normalizeStringArray_def Let_def del: map_map)
qed

subsection \<open>The loops over the keys\<close>

text \<open>
  Each loop stores one value per key, in the order of the keys.
\<close>

lemma abilityScore_body:
  "(if isFiniteNum n then clamp n (Fin 1) (Fin 30)
    else the (map_of [(A_str, Fin 10), (A_dex, Fin 10), (A_con, Fin 10),
                      (A_int, Fin 10), (A_wis, Fin 10), (A_cha, Fin 10)] k)) = Fin (abilityScore n)"
  by (cases n; cases k) (simp_all add: abilityScore_def clamp_Fin)

lemma abilityScore_bounds: "1 \<le> abilityScore n \<and> abilityScore n \<le> 30"
  by (cases n) (simp_all add: abilityScore_def)

lemma abilityScore_fix: "1 \<le> q \<Longrightarrow> q \<le> 30 \<Longrightarrow> abilityScore (Fin q) = q"
  by (simp add: abilityScore_def)

lemma normalizeAbilitiesBase_eq:
  "normalizeAbilitiesBase h v =
     map (\<lambda>k. (k, Fin (abilityScore (js_Number h (get v (abilityKeyName k)))))) ABILITY_KEYS"
  by (simp only: normalizeAbilitiesBase_def Let_def abilityScore_body) (simp add: ABILITY_KEYS_def)

lemma bankCount_body:
  "(if isFiniteNum n then Math_max (Fin 0) (Math_floor n) else Fin 0) = Fin (of_int (bankCount n))"
  by (cases n) (simp_all add: bankCount_def max_def)

lemma bankCount_nonneg: "0 \<le> bankCount n"
  by (cases n) (simp_all add: bankCount_def)

lemma bankCount_fix: "0 \<le> i \<Longrightarrow> bankCount (Fin (of_int i)) = i"
  by (simp add: bankCount_def)

lemma normalizeBank_eq:
  "normalizeBank h v =
     map (\<lambda>k. (k, Fin (of_int (bankCount (js_Number h (get v (coinKeyName k))))))) COIN_KEYS"
  by (simp only: normalizeBank_def Let_def bankCount_body) (simp add: emptyBank_def COIN_KEYS_def)

lemma normalizeSkillProfs_eq:
  "normalizeSkillProfs v =
     map (\<lambda>s. (skill_key s, js_Boolean (get v (skillKeyName (skill_key s))))) SKILLS"
  by (simp add: normalizeSkillProfs_def emptySkillProfs_def SKILLS_def)

lemma normalizeSaveProfs_eq:
  "normalizeSaveProfs v = map (\<lambda>k. (k, js_Boolean (get v (abilityKeyName k)))) ABILITY_KEYS"
  by (simp add: normalizeSaveProfs_def emptySaveProfs_def ABILITY_KEYS_def)

subsection \<open>A normalized character is a fixed point of normalizeCharacter\<close>

lemma get_character_obj:
  "get (Obj (character_obj c)) ''id'' = Str (char_id c)"
  "get (Obj (character_obj c)) ''publicCode'' = Str (publicCode c)"
  "get (Obj (character_obj c)) ''public_code'' = Undefined"
  "get (Obj (character_obj c)) ''name'' = Str (char_name c)"
  "get (Obj (character_obj c)) ''race'' = Str (race c)"
  "get (Obj (character_obj c)) ''subtype'' = Str (subtype c)"
  "get (Obj (character_obj c)) ''rank'' = Str (rankName (rank c))"
  "get (Obj (character_obj c)) ''partyName'' = Str (partyName c)"
  "get (Obj (character_obj c)) ''partyMembers'' = Arr (map Str (partyMembers c))"
  "get (Obj (character_obj c)) ''partyMemberCodes'' = Arr (map Str (partyMemberCodes c))"
  "get (Obj (character_obj c)) ''missionDirective'' = Str (missionDirective c)"
  "get (Obj (character_obj c)) ''notes'' = Str (char_notes c)"
  "get (Obj (character_obj c)) ''level'' = Num (level c)"
  "get (Obj (character_obj c)) ''maxHp'' = Num (maxHp c)"
  "get (Obj (character_obj c)) ''maxMp'' = Num (maxMp c)"
  "get (Obj (character_obj c)) ''currentHp'' = Num (currentHp c)"
  "get (Obj (character_obj c)) ''currentMp'' = Num (currentMp c)"
  "get (Obj (character_obj c)) ''abilitiesBase'' =
     Obj (map (\<lambda>(k, n). (abilityKeyName k, Num n)) (abilitiesBase c))"
  "get (Obj (character_obj c)) ''skillProficiencies'' =
     Obj (map (\<lambda>(k, b). (skillKeyName k, Bool b)) (skillProficiencies c))"
  "get (Obj (character_obj c)) ''saveProficiencies'' =
     Obj (map (\<lambda>(k, b). (abilityKeyName k, Bool b)) (saveProficiencies c))"
  "get (Obj (character_obj c)) ''knownSpellIds'' = Arr (map Str (knownSpellIds c))"
  "get (Obj (character_obj c)) ''passiveIds'' = Arr (map Str (passiveIds c))"
  "get (Obj (character_obj c)) ''equippedWeaponId'' = equippedWeaponId c"
  "get (Obj (character_obj c)) ''equippedArmorId'' = equippedArmorId c"
  "get (Obj (character_obj c)) ''personalBank'' = bank_obj (personalBank c)"
  "get (Obj (character_obj c)) ''partyBank'' = bank_obj (partyBank c)"
  "get (Obj (character_obj c)) ''weapons'' = weapons c"
  "get (Obj (character_obj c)) ''armors'' = armors c"
  by (simp_all add: character_obj_def)

lemma abilities_fix:
  assumes "\<forall>k. 1 \<le> f k \<and> f k \<le> 30"
  shows "normalizeAbilitiesBase h (Obj (map (\<lambda>(k, n). (abilityKeyName k, Num n))
           (map (\<lambda>k. (k, Fin (f k))) ABILITY_KEYS))) = map (\<lambda>k. (k, Fin (f k))) ABILITY_KEYS"
  using assms by (simp add: normalizeAbilitiesBase_eq ABILITY_KEYS_def abilityScore_fix)

lemma bank_fix:
  assumes "\<forall>k. 0 \<le> f k"
  shows "normalizeBank h (bank_obj (map (\<lambda>k. (k, Fin (of_int (f k)))) COIN_KEYS)) =
           map (\<lambda>k. (k, Fin (of_int (f k)))) COIN_KEYS"
  using assms by (simp add: normalizeBank_eq bank_obj_def COIN_KEYS_def bankCount_fix)

lemma skillProfs_fix:
  "normalizeSkillProfs (Obj (map (\<lambda>(k, b). (skillKeyName k, Bool b))
      (map (\<lambda>s. (skill_key s, f (skill_key s))) SKILLS))) =
   map (\<lambda>s. (skill_key s, f (skill_key s))) SKILLS"
  by (simp add: normalizeSkillProfs_eq SKILLS_def)

lemma saveProfs_fix:
  "normalizeSaveProfs (Obj (map (\<lambda>(k, b). (abilityKeyName k, Bool b))
      (map (\<lambda>k. (k, f k)) ABILITY_KEYS))) = map (\<lambda>k. (k, f k)) ABILITY_KEYS"
  by (simp add: normalizeSaveProfs_eq ABILITY_KEYS_def)

lemma codes_fix:
  "list_all (\<lambda>s. trimmed s \<and> toUpperCase s = s) xs \<Longrightarrow>
     map (\<lambda>s. toUpperCase (trim s)) xs = xs"
  by (induction xs) (simp_all add: trim_trimmed)

lemma coalesce_Null_fix: "v \<noteq> Undefined \<Longrightarrow> coalesce v Null = v"
  by (auto simp: coalesce_def nullish_def)

lemma normalizedD:
  assumes "normalized c"
  shows "publicCode c \<noteq> []" and "trimmed (publicCode c)"
    and "toUpperCase (publicCode c) = publicCode c"
    and "trimmed (char_name c)" and "race c \<noteq> []" and "trimmed (race c)"
    and "trimmed (subtype c)" and "trimmed (partyName c)" and "trimmed (missionDirective c)"
    and "length (partyMembers c) = 4" and "list_all trimmed (partyMembers c)"
    and "length (partyMemberCodes c) = 4"
    and "list_all (\<lambda>s. trimmed s \<and> toUpperCase s = s) (partyMemberCodes c)"
    and "\<exists>l. level c = Fin l \<and> 1 \<le> l \<and> l \<le> 20"
    and "\<exists>m q. maxHp c = Fin m \<and> currentHp c = Fin q \<and> 0 \<le> q \<and> q \<le> m \<and> m \<le> 9999"
    and "\<exists>m q. maxMp c = Fin m \<and> currentMp c = Fin q \<and> 0 \<le> q \<and> q \<le> m \<and> m \<le> 9999"
    and "\<exists>f. abilitiesBase c = map (\<lambda>k. (k, Fin (f k))) ABILITY_KEYS \<and> (\<forall>k. 1 \<le> f k \<and> f k \<le> 30)"
    and "\<exists>f. skillProficiencies c = map (\<lambda>s. (skill_key s, f (skill_key s))) SKILLS"
    and "\<exists>f. saveProficiencies c = map (\<lambda>k. (k, f k)) ABILITY_KEYS"
    and "list_all (\<lambda>s. trimmed s \<and> s \<noteq> []) (knownSpellIds c)"
    and "list_all (\<lambda>s. trimmed s \<and> s \<noteq> []) (passiveIds c)"
    and "equippedWeaponId c \<noteq> Undefined" and "equippedArmorId c \<noteq> Undefined"
    and "\<exists>f. personalBank c = map (\<lambda>k. (k, Fin (of_int (f k)))) COIN_KEYS \<and> (\<forall>k. 0 \<le> f k)"
    and "\<exists>f. partyBank c = map (\<lambda>k. (k, Fin (of_int (f k)))) COIN_KEYS \<and> (\<forall>k. 0 \<le> f k)"
  using assms unfolding normalized_def by blast+

lemma trimmed_subset_codes:
  "list_all (\<lambda>s. trimmed s \<and> toUpperCase s = s) xs \<Longrightarrow> list_all trimmed xs"
  by (simp add: list_all_iff)

lemma normalizeCharacter_fix:
  assumes n: "normalized c"
  shows "normalizeCharacter h (character_obj c) = c"
proof -
  note d = normalizedD [OF n]
  from d(14) obtain l where l: "level c = Fin l" "1 \<le> l" "l \<le> 20" by blast
  from d(15) obtain m q where hp: "maxHp c = Fin m" "currentHp c = Fin q" "0 \<le> q" "q \<le> m" "m \<le> 9999"
    by blast
  from d(16) obtain m' q' where mp: "maxMp c = Fin m'" "currentMp c = Fin q'" "0 \<le> q'" "q' \<le> m'" "m' \<le> 9999"
    by blast
  from d(17) obtain fa where fa: "abilitiesBase c = map (\<lambda>k. (k, Fin (fa k))) ABILITY_KEYS"
      "\<forall>k. 1 \<le> fa k \<and> fa k \<le> 30" by blast
  from d(18) obtain fs where fs: "skillProficiencies c = map (\<lambda>s. (skill_key s, fs (skill_key s))) SKILLS"
    by blast
  from d(19) obtain fv where fv: "saveProficiencies c = map (\<lambda>k. (k, fv k)) ABILITY_KEYS"
    by blast
  from d(24) obtain fb where fb: "personalBank c = map (\<lambda>k. (k, Fin (of_int (fb k)))) COIN_KEYS"
      "\<forall>k. 0 \<le> fb k" by blast
  from d(25) obtain fp where fp: "partyBank c = map (\<lambda>k. (k, Fin (of_int (fp k)))) COIN_KEYS"
      "\<forall>k. 0 \<le> fp k" by blast
  have strs: "trim (publicCode c) = publicCode c"
      "trim (char_name c) = char_name c" "trim (race c) = race c"
      "trim (subtype c) = subtype c" "trim (partyName c) = partyName c"
      "trim (missionDirective c) = missionDirective c"
    using d by (simp_all add: trim_trimmed)
  have arrs:
      "normalizeStringArray h (Arr (map Str (partyMembers c))) (Some 4) = partyMembers c"
      "normalizeStringArray h (Arr (map Str (partyMemberCodes c))) (Some 4) = partyMemberCodes c"
      "map (\<lambda>s. toUpperCase (trim s)) (partyMemberCodes c) = partyMemberCodes c"
      "normalizeStringArray h (Arr (map Str (knownSpellIds c))) None = knownSpellIds c"
      "normalizeStringArray h (Arr (map Str (passiveIds c))) None = passiveIds c"
    using d(10,11) apply (rule normalizeStringArray_Some_fix)
    using d(12) trimmed_subset_codes [OF d(13)] apply (rule normalizeStringArray_Some_fix)
    using d(13) apply (rule codes_fix)
    using d(20) apply (rule normalizeStringArray_None_fix)
    using d(21) apply (rule normalizeStringArray_None_fix)
    done
  have eq: "coalesce (equippedWeaponId c) Null = equippedWeaponId c"
      "coalesce (equippedArmorId c) Null = equippedArmorId c"
    using d(22,23) by (simp_all add: coalesce_Null_fix)
  have recs: "normalizeAbilitiesBase h (Obj (map (\<lambda>(k, n). (abilityKeyName k, Num n)) (abilitiesBase c))) = abilitiesBase c"
      "normalizeSkillProfs (Obj (map (\<lambda>(k, b). (skillKeyName k, Bool b)) (skillProficiencies c))) = skillProficiencies c"
      "normalizeSaveProfs (Obj (map (\<lambda>(k, b). (abilityKeyName k, Bool b)) (saveProficiencies c))) = saveProficiencies c"
      "normalizeBank h (bank_obj (personalBank c)) = personalBank c"
      "normalizeBank h (bank_obj (partyBank c)) = partyBank c"
    unfolding fa(1) fs fv fb(1) fp(1)
    using abilities_fix [OF fa(2)] skillProfs_fix saveProfs_fix bank_fix [OF fb(2)] bank_fix [OF fp(2)]
    by blast+
  have nums: "clamp (Fin l) (Fin 1) (Fin 20) = Fin l" "clamp (Fin m) (Fin 0) (Fin 9999) = Fin m"
      "clamp (Fin m') (Fin 0) (Fin 9999) = Fin m'" "clamp (Fin q) (Fin 0) (Fin m) = Fin q"
      "clamp (Fin q') (Fin 0) (Fin m') = Fin q'"
    using l hp mp by (simp_all add: clamp_Fin)
  show ?thesis
    unfolding normalizeCharacter_def Let_def get_character_obj
    by (simp add: strs arrs eq recs nums l hp mp normalizeRank_name d(1,3,5))
qed

subsection \<open>normalizeCharacter returns a normalized character\<close>

lemma raceStats_bounds:
  "\<exists>a b. hp (getRaceStats (raceName r)) = Fin a \<and> 0 \<le> a \<and> a \<le> 9999 \<and>
         mp (getRaceStats (raceName r)) = Fin b \<and> 0 \<le> b \<and> b \<le> 9999"
  by (cases r) (simp_all add: getRaceStats_def RACE_STATS_def)

lemma finite_asNumber: "Number_isFinite v \<Longrightarrow> \<exists>q. asNumber v = Fin q \<and> v = Num (Fin q)"
  by (cases v rule: Number_isFinite.cases) (auto elim: isFiniteNum.elims)

lemma clamped_field:
  assumes "a \<le> b" and "a \<le> d" and "d \<le> b"
  shows "\<exists>l. (if Number_isFinite v then clamp (asNumber v) (Fin a) (Fin b) else Fin d) = Fin l
             \<and> a \<le> l \<and> l \<le> b"
proof (cases "Number_isFinite v")
  case True
  then obtain q where "asNumber v = Fin q" using finite_asNumber by blast
  with True assms show ?thesis by (simp add: clamp_Fin)
next
  case False
  with assms show ?thesis by simp
qed

lemma current_field:
  assumes "0 \<le> m"
  shows "\<exists>q. clamp (if Number_isFinite v then asNumber v else Fin m) (Fin 0) (Fin m) = Fin q
             \<and> 0 \<le> q \<and> q \<le> m"
proof (cases "Number_isFinite v")
  case True
  then obtain q where "asNumber v = Fin q" using finite_asNumber by blast
  with True assms show ?thesis by (simp add: clamp_Fin)
next
  case False
  with assms show ?thesis by (simp add: clamp_Fin)
qed

lemma code_shape:
  "(if toUpperCase (trim s) = [] then generatePublicCode h else toUpperCase (trim s)) = p \<Longrightarrow>
     p \<noteq> [] \<and> trimmed p \<and> toUpperCase p = p"
  using generatePublicCode_ne [of h] hex_trimmed [OF generatePublicCode_hex, of h]
  by (auto simp: trimmed_toUpperCase trimmed_trim toUpperCase_idem split: if_splits)

lemma trimmed_Human: "trimmed ''Human''"
  by (simp add: trimmed_def isWhiteSpace_def)

lemma coalesce_Null_defined: "coalesce v Null \<noteq> Undefined"
  by (simp add: coalesce_def nullish_def)

lemma normalizeCharacter_max:
  "maxHp (normalizeCharacter h x) =
     (if Number_isFinite (get (Obj x) ''maxHp'')
      then clamp (asNumber (get (Obj x) ''maxHp'')) (Fin 0) (Fin 9999)
      else hp (getRaceStats (raceName (normalizeRace h (Str (race (normalizeCharacter h x)))))))"
  "maxMp (normalizeCharacter h x) =
     (if Number_isFinite (get (Obj x) ''maxMp'')
      then clamp (asNumber (get (Obj x) ''maxMp'')) (Fin 0) (Fin 9999)
      else mp (getRaceStats (raceName (normalizeRace h (Str (race (normalizeCharacter h x)))))))"
  by (simp_all add: normalizeCharacter_def Let_def del: get.simps split del: if_split cong: if_cong)

lemma normalizeCharacter_current:
  "currentHp (normalizeCharacter h x) =
     clamp (if Number_isFinite (get (Obj x) ''currentHp'')
            then asNumber (get (Obj x) ''currentHp'') else maxHp (normalizeCharacter h x))
       (Fin 0) (maxHp (normalizeCharacter h x))"
  "currentMp (normalizeCharacter h x) =
     clamp (if Number_isFinite (get (Obj x) ''currentMp'')
            then asNumber (get (Obj x) ''currentMp'') else maxMp (normalizeCharacter h x))
       (Fin 0) (maxMp (normalizeCharacter h x))"
  by (simp_all add: normalizeCharacter_def Let_def del: get.simps split del: if_split cong: if_cong)

lemma normalizeCharacter_max_bounds:
  "\<exists>m. maxHp (normalizeCharacter h x) = Fin m \<and> 0 \<le> m \<and> m \<le> 9999"
  "\<exists>m. maxMp (normalizeCharacter h x) = Fin m \<and> 0 \<le> m \<and> m \<le> 9999"
proof -
  let ?r = "normalizeRace h (Str (race (normalizeCharacter h x)))"
  obtain a b where ab: "hp (getRaceStats (raceName ?r)) = Fin a" "0 \<le> a" "a \<le> 9999"
      "mp (getRaceStats (raceName ?r)) = Fin b" "0 \<le> b" "b \<le> 9999"
    using raceStats_bounds by blast
  show "\<exists>m. maxHp (normalizeCharacter h x) = Fin m \<and> 0 \<le> m \<and> m \<le> 9999"
    unfolding normalizeCharacter_max ab(1)
    using clamped_field [of 0 9999 a "get (Obj x) ''maxHp''"] ab(2,3) by simp
  show "\<exists>m. maxMp (normalizeCharacter h x) = Fin m \<and> 0 \<le> m \<and> m \<le> 9999"
    unfolding normalizeCharacter_max ab(4)
    using clamped_field [of 0 9999 b "get (Obj x) ''maxMp''"] ab(5,6) by simp
qed

lemma normalizeCharacter_hp_bounds:
  "\<exists>m q. maxHp (normalizeCharacter h x) = Fin m \<and> currentHp (normalizeCharacter h x) = Fin q \<and>
         0 \<le> q \<and> q \<le> m \<and> m \<le> 9999"
proof -
  obtain m where m: "maxHp (normalizeCharacter h x) = Fin m" "0 \<le> m" "m \<le> 9999"
    using normalizeCharacter_max_bounds(1) by blast
  obtain q where "currentHp (normalizeCharacter h x) = Fin q" "0 \<le> q" "q \<le> m"
    using current_field [OF m(2), of "get (Obj x) ''currentHp''"]
    unfolding normalizeCharacter_current(1) [of h x] m(1) by blast
  with m show ?thesis by blast
qed

lemma normalizeCharacter_mp_bounds:
  "\<exists>m q. maxMp (normalizeCharacter h x) = Fin m \<and> currentMp (normalizeCharacter h x) = Fin q \<and>
         0 \<le> q \<and> q \<le> m \<and> m \<le> 9999"
proof -
  obtain m where m: "maxMp (normalizeCharacter h x) = Fin m" "0 \<le> m" "m \<le> 9999"
    using normalizeCharacter_max_bounds(2) by blast
  obtain q where "currentMp (normalizeCharacter h x) = Fin q" "0 \<le> q" "q \<le> m"
    using current_field [OF m(2), of "get (Obj x) ''currentMp''"]
    unfolding normalizeCharacter_current(2) [of h x] m(1) by blast
  with m show ?thesis by blast
qed

lemma normalizeCharacter_level:
  "level (normalizeCharacter h x) =
     (if Number_isFinite (get (Obj x) ''level'')
      then clamp (asNumber (get (Obj x) ''level'')) (Fin 1) (Fin 20) else Fin 5)"
  by (simp add: normalizeCharacter_def Let_def LEVEL_def del: get.simps split del: if_split cong: if_cong)

lemma normalizeCharacter_publicCode:
  "publicCode (normalizeCharacter h x) =
     (let s = js_String h (coalesce (coalesce (get (Obj x) ''publicCode'')
                (get (Obj x) ''public_code'')) (Str []))
      in if toUpperCase (trim s) = [] then generatePublicCode h else toUpperCase (trim s))"
  by (simp add: normalizeCharacter_def Let_def del: get.simps split del: if_split cong: if_cong)

lemma normalizeCharacter_records:
  "abilitiesBase (normalizeCharacter h x) = normalizeAbilitiesBase h (get (Obj x) ''abilitiesBase'')"
  "skillProficiencies (normalizeCharacter h x) = normalizeSkillProfs (get (Obj x) ''skillProficiencies'')"
  "saveProficiencies (normalizeCharacter h x) = normalizeSaveProfs (get (Obj x) ''saveProficiencies'')"
  "personalBank (normalizeCharacter h x) = normalizeBank h (get (Obj x) ''personalBank'')"
  "partyBank (normalizeCharacter h x) = normalizeBank h (get (Obj x) ''partyBank'')"
  by (simp_all add: normalizeCharacter_def Let_def del: get.simps)

lemma normalized_normalizeCharacter: "normalized (normalizeCharacter h x)"
proof -
  let ?n = "normalizeCharacter h x"
  let ?c = "Obj x"
  have lvl: "\<exists>l. level ?n = Fin l \<and> 1 \<le> l \<and> l \<le> 20"
    unfolding normalizeCharacter_level
    using clamped_field [of 1 20 5 "get ?c ''level''"] by simp
  have code: "publicCode ?n \<noteq> [] \<and> trimmed (publicCode ?n) \<and> toUpperCase (publicCode ?n) = publicCode ?n"
    by (rule code_shape) (simp add: normalizeCharacter_publicCode Let_def)
  have strs: "trimmed (char_name ?n)" "race ?n \<noteq> []" "trimmed (race ?n)" "trimmed (subtype ?n)"
      "trimmed (partyName ?n)" "trimmed (missionDirective ?n)"
    by (simp_all add: normalizeCharacter_def Let_def trimmed_trim trimmed_Human del: get.simps)
  have pm: "length (partyMembers ?n) = 4" "list_all trimmed (partyMembers ?n)"
    by (simp_all add: normalizeCharacter_def Let_def normalizeStringArray_Some_shape del: get.simps)
  have pmc: "length (partyMemberCodes ?n) = 4"
      "list_all (\<lambda>s. trimmed s \<and> toUpperCase s = s) (partyMemberCodes ?n)"
    using normalizeStringArray_Some_shape [of h "get ?c ''partyMemberCodes''" 4]
    by (simp_all add: normalizeCharacter_def Let_def
          list_all_iff trimmed_toUpperCase trimmed_trim toUpperCase_idem del: get.simps)
  have ab': "\<exists>f. abilitiesBase ?n = map (\<lambda>k. (k, Fin (f k))) ABILITY_KEYS \<and> (\<forall>k. 1 \<le> f k \<and> f k \<le> 30)"
    unfolding normalizeCharacter_records normalizeAbilitiesBase_eq
    by (rule exI [of _ "\<lambda>k. abilityScore (js_Number h (get (get ?c ''abilitiesBase'') (abilityKeyName k)))"])
       (simp add: abilityScore_bounds del: get.simps)
  have sk: "\<exists>f. skillProficiencies ?n = map (\<lambda>s. (skill_key s, f (skill_key s))) SKILLS"
    unfolding normalizeCharacter_records normalizeSkillProfs_eq
    by (rule exI [of _ "\<lambda>k. js_Boolean (get (get ?c ''skillProficiencies'') (skillKeyName k))"]) simp
  have sv: "\<exists>f. saveProficiencies ?n = map (\<lambda>k. (k, f k)) ABILITY_KEYS"
    unfolding normalizeCharacter_records normalizeSaveProfs_eq
    by (rule exI [of _ "\<lambda>k. js_Boolean (get (get ?c ''saveProficiencies'') (abilityKeyName k))"]) simp
  have ids: "list_all (\<lambda>s. trimmed s \<and> s \<noteq> []) (knownSpellIds ?n)"
      "list_all (\<lambda>s. trimmed s \<and> s \<noteq> []) (passiveIds ?n)"
    by (simp_all add: normalizeCharacter_def Let_def normalizeStringArray_None_shape del: get.simps)
  have eqp: "equippedWeaponId ?n \<noteq> Undefined" "equippedArmorId ?n \<noteq> Undefined"
    by (simp_all add: normalizeCharacter_def Let_def coalesce_Null_defined del: get.simps)
  have pb: "\<exists>f. personalBank ?n = map (\<lambda>k. (k, Fin (of_int (f k)))) COIN_KEYS \<and> (\<forall>k. 0 \<le> f k)"
    unfolding normalizeCharacter_records normalizeBank_eq
    by (rule exI [of _ "\<lambda>k. bankCount (js_Number h (get (get ?c ''personalBank'') (coinKeyName k)))"])
       (simp add: bankCount_nonneg del: get.simps)
  have qb: "\<exists>f. partyBank ?n = map (\<lambda>k. (k, Fin (of_int (f k)))) COIN_KEYS \<and> (\<forall>k. 0 \<le> f k)"
    unfolding normalizeCharacter_records normalizeBank_eq
    by (rule exI [of _ "\<lambda>k. bankCount (js_Number h (get (get ?c ''partyBank'') (coinKeyName k)))"])
       (simp add: bankCount_nonneg del: get.simps)
  show ?thesis
    unfolding normalized_def
    using code strs pm pmc lvl normalizeCharacter_hp_bounds [of h x]
      normalizeCharacter_mp_bounds [of h x] ab' sk sv ids eqp pb qb by blast
qed

subsection \<open>Updates of the character sheet\<close>


lemma spread_currentMp:
  "spread (character_obj c) [(''currentMp'', Num n)] = character_obj (c\<lparr>currentMp := n\<rparr>)"
  by (simp add: spread_def character_obj_def)

lemma spread_eatCoin:
  "spread (character_obj c) [(''personalBank'', bank_obj b), (''currentMp'', Num n)] =
     character_obj (c\<lparr>personalBank := b, currentMp := n\<rparr>)"
  by (simp add: spread_def character_obj_def)


lemma normalized_currentMp:
  assumes "normalized c" and "maxMp c = Fin m" and "0 \<le> v" and "v \<le> m"
  shows "normalized (c\<lparr>currentMp := Fin v\<rparr>)"
  using assms unfolding normalized_def by auto

lemma clamp_current:
  assumes "0 \<le> m"
  shows "\<exists>v. clamp n (Fin 0) (Fin m) = Fin v \<and> 0 \<le> v \<and> v \<le> m"
  using assms by (cases n) (simp_all add: clamp_def)


lemma nextCharacter_currentMp:
  assumes n: "normalized c"
  shows "nextCharacter h c [(''currentMp'', Num (clamp v (Fin 0) (maxMp c)))] =
           c\<lparr>currentMp := clamp v (Fin 0) (maxMp c)\<rparr>"
proof -
  from normalizedD(16) [OF n] obtain m where m: "maxMp c = Fin m" "0 \<le> m" by auto
  obtain w where w: "clamp v (Fin 0) (Fin m) = Fin w" "0 \<le> w" "w \<le> m"
    using clamp_current [OF m(2)] by blast
  show ?thesis
    unfolding nextCharacter_def spread_currentMp m(1) w(1)
    by (rule normalizeCharacter_fix) (rule normalized_currentMp [OF n m(1) w(2,3)])
qed

lemma bank_update:
  "AList.update k v (map (\<lambda>k. (k, Fin (of_int (f k)))) COIN_KEYS) =
     map (\<lambda>k'. (k', if k' = k then v else Fin (of_int (f k')))) COIN_KEYS"
  by (cases k) (simp_all add: COIN_KEYS_def)

lemma bank_lookup:
  "map_of (map (\<lambda>k. (k, g k)) COIN_KEYS) k = Some (g k)"
  by (cases k) (simp_all add: COIN_KEYS_def)

lemma normalized_eatCoin:
  assumes n: "normalized c"
    and b: "personalBank c = map (\<lambda>k. (k, Fin (of_int (f k)))) COIN_KEYS"
    and pos: "0 < f k"
  shows "normalized (c\<lparr>personalBank := AList.update k (Fin (of_int (f k - 1))) (personalBank c),
                       currentMp := maxMp c\<rparr>)"
proof -
  from normalizedD(24) [OF n] obtain g where g: "personalBank c = map (\<lambda>k. (k, Fin (of_int (g k)))) COIN_KEYS"
      "\<forall>k. 0 \<le> g k" by blast
  have fg: "f k' = g k'" for k'
    using bank_lookup [of "\<lambda>k. Fin (of_int (f k))" k'] bank_lookup [of "\<lambda>k. Fin (of_int (g k))" k']
    unfolding b [symmetric] g(1) [symmetric] by simp
  let ?f = "\<lambda>k'. if k' = k then f k - 1 else f k'"
  have e1: "AList.update k (Fin (of_int (f k - 1))) (personalBank c) = map (\<lambda>k. (k, Fin (of_int (?f k)))) COIN_KEYS"
    unfolding b bank_update by (rule map_cong) auto
  have e2: "\<forall>k'. 0 \<le> ?f k'" using pos g(2) fg by auto
  have pb: "\<exists>f'. AList.update k (Fin (of_int (f k - 1))) (personalBank c) =
       map (\<lambda>k. (k, Fin (of_int (f' k)))) COIN_KEYS \<and> (\<forall>k. 0 \<le> f' k)"
    by (rule exI [of _ ?f]) (use e1 e2 in blast)
  from normalizedD(16) [OF n] have "\<exists>m q. maxMp c = Fin m \<and> maxMp c = Fin q \<and> 0 \<le> q \<and> q \<le> m \<and> m \<le> 9999"
    by auto
  with n pb show ?thesis unfolding normalized_def by simp
qed


subsection \<open>Armor bonuses, and lookups in the results\<close>

lemma bonus_loop_lookup:
  "map_of (foldl (\<lambda>out k. let n = g k in if P n then AList.update k n out else out) acc ks) k =
     (if k \<in> set ks \<and> P (g k) then Some (g k) else map_of acc k)"
  by (induction ks arbitrary: acc) (auto simp: Let_def update_conv')

lemma ABILITY_KEYS_all: "k \<in> set ABILITY_KEYS"
  by (cases k) (simp_all add: ABILITY_KEYS_def)

lemma normalizeAbilityBonuses_lookup:
  "map_of (normalizeAbilityBonuses h b) k =
     (let n = js_Number h (get b (abilityKeyName k))
      in if isFiniteNum n \<and> n \<noteq> Fin 0 then Some n else None)"
  unfolding normalizeAbilityBonuses_def
  using bonus_loop_lookup [of "\<lambda>k. js_Number h (get b (abilityKeyName k))"
      "\<lambda>n. isFiniteNum n \<and> n \<noteq> Fin 0" "[]" ABILITY_KEYS k]
  by (simp add: ABILITY_KEYS_all Let_def)

lemma abilities_lookup: "map_of (map (\<lambda>k. (k, g k)) ABILITY_KEYS) k = Some (g k)"
  by (cases k) (simp_all add: ABILITY_KEYS_def)

lemma get_missing: "map_of x k = None \<Longrightarrow> get (Obj x) k = Undefined"
  by simp

lemma normalizeSpell_cost_nonneg: "\<exists>t. mpCost (normalizeSpell hs s) = Fin t \<and> 0 \<le> t"
  by (cases "normalizeMpTier hs (get s ''mpTier'')") (simp_all add: normalizeSpell_def Let_def del: get.simps)

lemma dispatch_castSpell:
  assumes n: "normalized c"
  shows "dispatch h c (castSpell c sp) =
     (if js_less (currentMp c) (mpCost sp) then c
      else c\<lparr>currentMp := clamp (js_sub (currentMp c) (mpCost sp)) (Fin 0) (maxMp c)\<rparr>)"
  by (simp add: dispatch_def castSpell_def nextCharacter_currentMp [OF n])

lemma confirmEatCoin_count:
  assumes b: "personalBank c = map (\<lambda>k. (k, Fin (of_int (f k)))) COIN_KEYS"
    and le: "f k \<le> 2 ^ 53"
  shows "confirmEatCoin c k =
     (if f k \<le> 0 then None
      else Some [(''personalBank'',
                  bank_obj (AList.update k (Fin (of_int (f k - 1))) (personalBank c))),
                 (''currentMp'', Num (maxMp c))])"
proof (cases "f k \<le> 0")
  case True
  then show ?thesis unfolding confirmEatCoin_def Let_def by (simp add: b bank_lookup)
next
  case False
  then have "ieee_sub (Fin (of_int (f k))) (Fin (of_int 1)) = Fin (of_int (f k - 1))"
    using le by (intro ieee_sub_int) simp_all
  then have "ieee_sub (Fin (of_int (f k))) (Fin 1) = Fin (of_int (f k - 1))" by simp
  with False show ?thesis unfolding confirmEatCoin_def Let_def by (simp add: b bank_lookup)
qed







subsection \<open>The selected character, and the two normalizations of party codes\<close>

lemma updateSelectedCharacter_selected:
  "sid \<noteq> [] \<Longrightarrow>
     updateSelectedCharacter h (Some sid) cs updates =
       map (\<lambda>c. if char_id c = sid then nextCharacter h c updates else c) cs"
  by (auto simp: updateSelectedCharacter_def)

lemma normalizePublicCode_shape:
  "length (normalizePublicCode h v) \<le> 16 \<and> list_all isUpperAlnum (normalizePublicCode h v)"
  by (auto simp: normalizePublicCode_def Let_def list_all_iff dest: in_set_takeD)

lemma normalizePartyMemberCodes_shape:
  "length (normalizePartyMemberCodes h v) = 4 \<and>
   list_all (\<lambda>s. length s \<le> 16 \<and> list_all isUpperAlnum s) (normalizePartyMemberCodes h v)"
proof -
  obtain arr where arr: "normalizePartyMemberCodes h v = take 4 (padTo 4 (map (normalizePublicCode h) arr))"
    by (cases v) (auto simp: normalizePartyMemberCodes_def Let_def intro: that [of "[]"])
  have "list_all (\<lambda>s. length s \<le> 16 \<and> list_all isUpperAlnum s) (padTo 4 (map (normalizePublicCode h) arr))"
    unfolding padTo_eq using normalizePublicCode_shape by (auto simp: list_all_iff)
  then show ?thesis unfolding arr padTo_eq by (auto simp: list_all_iff dest!: in_set_takeD)
qed

lemma normalizeCharacter_partyMemberCodes_shape:
  "length (partyMemberCodes (normalizeCharacter h x)) = 4 \<and>
   list_all (\<lambda>s. trim s = s \<and> toUpperCase s = s) (partyMemberCodes (normalizeCharacter h x))"
  using normalizedD(12,13) [OF normalized_normalizeCharacter, of h x]
  by (auto simp: list_all_iff trim_trimmed)

section \<open>The claims\<close>

text \<open>
  Claim C1. Normalizing a character is idempotent: the object a normalized character is,
  normalized again (under any host, with any random values), is the same character.
\<close>

theorem normalizeCharacter_idempotent:
  "normalizeCharacter h' (character_obj (normalizeCharacter h x)) = normalizeCharacter h x"
  by (rule normalizeCharacter_fix) (rule normalized_normalizeCharacter)

text \<open>
  Claim C2. For every input object the character returned by \<open>normalizeCharacter\<close> has finite
  vitals with \<open>0 \<le> currentHp \<le> maxHp \<le> 9999\<close> and \<open>0 \<le> currentMp \<le> maxMp \<le> 9999\<close>, and
  its \<open>abilitiesBase\<close> has exactly the six ability keys, each with a finite score in
  \<open>[1, 30]\<close>.
\<close>

theorem normalizeCharacter_bounds:
  "(\<exists>m q. maxHp (normalizeCharacter h x) = Fin m \<and> currentHp (normalizeCharacter h x) = Fin q \<and>
          0 \<le> q \<and> q \<le> m \<and> m \<le> 9999) \<and>
   (\<exists>m q. maxMp (normalizeCharacter h x) = Fin m \<and> currentMp (normalizeCharacter h x) = Fin q \<and>
          0 \<le> q \<and> q \<le> m \<and> m \<le> 9999) \<and>
   map fst (abilitiesBase (normalizeCharacter h x)) = ABILITY_KEYS \<and>
   (\<exists>v. map_of (abilitiesBase (normalizeCharacter h x)) k = Some (Fin v) \<and> 1 \<le> v \<and> v \<le> 30)"
proof -
  have "map fst (abilitiesBase (normalizeCharacter h x)) = ABILITY_KEYS"
    by (simp add: normalizeCharacter_records normalizeAbilitiesBase_eq comp_def)
  moreover have "\<exists>v. map_of (abilitiesBase (normalizeCharacter h x)) k = Some (Fin v) \<and> 1 \<le> v \<and> v \<le> 30"
    unfolding normalizeCharacter_records normalizeAbilitiesBase_eq abilities_lookup
    using abilityScore_bounds by blast
  ultimately show ?thesis
    using normalizeCharacter_hp_bounds [of h x] normalizeCharacter_mp_bounds [of h x] by blast
qed

text \<open>
  Claim C3. For every input the spell returned by \<open>normalizeSpell\<close> has the cost of the table
  at its tier, the tier being normalized from the input's \<open>mpTier\<close>; an \<open>mpCost\<close> on the
  input changes nothing. The table is None 0, Low 25, Med 50, High 100, Very High 150,
  Extreme 200.
\<close>

theorem normalizeSpell_mpCost:
  "mpCost (normalizeSpell h s) = MP_TIER_TO_COST (mpTier (normalizeSpell h s)) \<and>
   mpTier (normalizeSpell h s) = normalizeMpTier h (get s ''mpTier'') \<and>
   normalizeSpell h (Obj ((''mpCost'', v) # kvs)) = normalizeSpell h (Obj kvs) \<and>
   MP_TIER_TO_COST MpNone = Fin 0 \<and> MP_TIER_TO_COST Low = Fin 25 \<and>
   MP_TIER_TO_COST Med = Fin 50 \<and> MP_TIER_TO_COST High = Fin 100 \<and>
   MP_TIER_TO_COST VeryHigh = Fin 150 \<and> MP_TIER_TO_COST Extreme = Fin 200"
  by (simp add: normalizeSpell_def Let_def)

text \<open>
  An input with tier \<open>" very high "\<close> and \<open>mpCost\<close> 3 gets the cost 150.
\<close>

theorem normalizeSpell_mpCost_witness:
  "mpCost (normalizeSpell sampleHost
      (Obj [(''mpTier'', Str '' very high ''), (''mpCost'', Num (Fin 3))])) = Fin 150"
proof -
  have "normalizeMpTier sampleHost
      (get (Obj [(''mpTier'', Str '' very high ''), (''mpCost'', Num (Fin 3))]) ''mpTier'') = VeryHigh"
    by code_simp
  then show ?thesis
    using normalizeSpell_mpCost [of sampleHost
        "Obj [(''mpTier'', Str '' very high ''), (''mpCost'', Num (Fin 3))]"]
    by simp
qed

text \<open>
  Claim C4. On a character of the application (one that \<open>normalizeCharacter\<close> returned),
  \<open>castSpell\<close> returns without an update when \<open>currentMp < spell.mpCost\<close>, so the character is
  unchanged; otherwise the one update it sends changes \<open>currentMp\<close> alone, to
  \<open>clamp(currentMp - mpCost, 0, maxMp)\<close>, which is not negative, and which for a spell that
  \<open>normalizeSpell\<close> returned is \<open>currentMp - mpCost\<close> itself.
\<close>

theorem castSpell_rejects_or_subtracts:
  "c = normalizeCharacter h x \<Longrightarrow>
   (js_less (currentMp c) (mpCost sp) \<longrightarrow>
      castSpell c sp = None \<and> dispatch h' c (castSpell c sp) = c) \<and>
   (\<not> js_less (currentMp c) (mpCost sp) \<longrightarrow>
      dispatch h' c (castSpell c sp) =
        c\<lparr>currentMp := clamp (js_sub (currentMp c) (mpCost sp)) (Fin 0) (maxMp c)\<rparr> \<and>
      js_le (Fin 0) (currentMp (dispatch h' c (castSpell c sp)))) \<and>
   (sp = normalizeSpell hs s \<longrightarrow> \<not> js_less (currentMp c) (mpCost sp) \<longrightarrow>
      dispatch h' c (castSpell c sp) = c\<lparr>currentMp := js_sub (currentMp c) (mpCost sp)\<rparr>)"
proof -
  assume c: "c = normalizeCharacter h x"
  have n: "normalized c" unfolding c by (rule normalized_normalizeCharacter)
  from normalizedD(16) [OF n] obtain m q where mq: "maxMp c = Fin m" "currentMp c = Fin q"
      "0 \<le> q" "q \<le> m" by blast
  obtain w where w: "clamp (js_sub (currentMp c) (mpCost sp)) (Fin 0) (maxMp c) = Fin w" "0 \<le> w"
    using clamp_current [of m] mq by (metis order_trans)
  have a: "js_less (currentMp c) (mpCost sp) \<Longrightarrow> castSpell c sp = None"
    by (simp add: castSpell_def)
  have b: "js_le (Fin 0) (currentMp (dispatch h' c (castSpell c sp)))"
    if "\<not> js_less (currentMp c) (mpCost sp)"
    using that w by (simp add: dispatch_castSpell [OF n])
  have d: "clamp (js_sub (currentMp c) (mpCost sp)) (Fin 0) (maxMp c) = js_sub (currentMp c) (mpCost sp)"
    if sp: "sp = normalizeSpell hs s" and nl: "\<not> js_less (currentMp c) (mpCost sp)"
  proof -
    obtain t where t: "mpCost sp = Fin t" "0 \<le> t"
      using normalizeSpell_cost_nonneg [of hs s] unfolding sp [symmetric] by blast
    with nl mq show ?thesis by (simp add: clamp_Fin)
  qed
  have r: "dispatch h' c None = c" by (simp add: dispatch_def)
  show ?thesis using a b d r by (auto simp: dispatch_castSpell [OF n])
qed

text \<open>
  With 40 mana points a spell of tier Med (50) is refused and the 40 stay; a spell of tier
  Low (25) leaves 15.
\<close>

theorem castSpell_rejects_or_subtracts_witness:
  "js_less (currentMp (normalizeCharacter sampleHost [(''currentMp'', Num (Fin 40))]))
      (mpCost (normalizeSpell sampleHost (Obj [(''mpTier'', Str ''Med'')]))) \<and>
   castSpell (normalizeCharacter sampleHost [(''currentMp'', Num (Fin 40))])
      (normalizeSpell sampleHost (Obj [(''mpTier'', Str ''Med'')])) = None \<and>
   \<not> js_less (currentMp (normalizeCharacter sampleHost [(''currentMp'', Num (Fin 40))]))
      (mpCost (normalizeSpell sampleHost (Obj [(''mpTier'', Str ''Low'')]))) \<and>
   currentMp (dispatch sampleHost (normalizeCharacter sampleHost [(''currentMp'', Num (Fin 40))])
      (castSpell (normalizeCharacter sampleHost [(''currentMp'', Num (Fin 40))])
         (normalizeSpell sampleHost (Obj [(''mpTier'', Str ''Low'')])))) = Fin 15 \<and>
   currentMp (dispatch sampleHost (normalizeCharacter sampleHost [(''currentMp'', Num (Fin 40))])
      (castSpell (normalizeCharacter sampleHost [(''currentMp'', Num (Fin 40))])
         (normalizeSpell sampleHost (Obj [(''mpTier'', Str ''Med'')])))) = Fin 40"
proof -
  let ?c = "normalizeCharacter sampleHost [(''currentMp'', Num (Fin 40))]"
  have e: "currentMp ?c = Fin 40"
      "mpCost (normalizeSpell sampleHost (Obj [(''mpTier'', Str ''Med'')])) = Fin 50"
      "mpCost (normalizeSpell sampleHost (Obj [(''mpTier'', Str ''Low'')])) = Fin 25"
    by code_simp+
  let ?med = "normalizeSpell sampleHost (Obj [(''mpTier'', Str ''Med'')])"
  let ?low = "normalizeSpell sampleHost (Obj [(''mpTier'', Str ''Low'')])"
  have l1: "js_less (currentMp ?c) (mpCost ?med)" and l2: "\<not> js_less (currentMp ?c) (mpCost ?low)"
    by (simp_all add: e)
  have r1: "castSpell ?c ?med = None" and "dispatch sampleHost ?c (castSpell ?c ?med) = ?c"
    using castSpell_rejects_or_subtracts [OF refl, of sampleHost "[(''currentMp'', Num (Fin 40))]"
        ?med sampleHost sampleHost "Obj [(''mpTier'', Str ''Med'')]"] l1 by blast+
  then have r0: "currentMp (dispatch sampleHost ?c (castSpell ?c ?med)) = Fin 40"
    by (simp add: e)
  have "dispatch sampleHost ?c (castSpell ?c ?low) = ?c\<lparr>currentMp := js_sub (currentMp ?c) (mpCost ?low)\<rparr>"
    using castSpell_rejects_or_subtracts [OF refl, of sampleHost "[(''currentMp'', Num (Fin 40))]"
        ?low sampleHost sampleHost "Obj [(''mpTier'', Str ''Low'')]"] l2 by blast
  then have r2: "currentMp (dispatch sampleHost ?c (castSpell ?c ?low)) = Fin 15"
    by (simp add: e)
  show ?thesis using l1 l2 r0 r1 r2 by blast
qed

text \<open>
  Claim C5, as stated, fails on the code: the count is decremented with the subtraction of
  doubles, and a count of \<open>2 ^ 60\<close> (which \<open>normalizeBank\<close> keeps) less 1 is \<open>2 ^ 60\<close> again. Eating a
  bronze coin then restores the mana points, here from 40 to 200, and leaves the count as
  it was.
\<close>

theorem confirmEatCoin_large_count_kept:
  "map_of (personalBank (normalizeCharacter sampleHost
          [(''personalBank'', Obj [(''bronze'', Num (Fin 1152921504606846976))]),
           (''maxMp'', Num (Fin 200)), (''currentMp'', Num (Fin 40))])) bronze =
     Some (Fin 1152921504606846976) \<and>
   currentMp (normalizeCharacter sampleHost
          [(''personalBank'', Obj [(''bronze'', Num (Fin 1152921504606846976))]),
           (''maxMp'', Num (Fin 200)), (''currentMp'', Num (Fin 40))]) = Fin 40 \<and>
   map_of (personalBank (dispatch sampleHost
       (normalizeCharacter sampleHost
          [(''personalBank'', Obj [(''bronze'', Num (Fin 1152921504606846976))]),
           (''maxMp'', Num (Fin 200)), (''currentMp'', Num (Fin 40))])
       (confirmEatCoin (normalizeCharacter sampleHost
          [(''personalBank'', Obj [(''bronze'', Num (Fin 1152921504606846976))]),
           (''maxMp'', Num (Fin 200)), (''currentMp'', Num (Fin 40))]) bronze))) bronze =
     Some (Fin 1152921504606846976) \<and>
   currentMp (dispatch sampleHost
       (normalizeCharacter sampleHost
          [(''personalBank'', Obj [(''bronze'', Num (Fin 1152921504606846976))]),
           (''maxMp'', Num (Fin 200)), (''currentMp'', Num (Fin 40))])
       (confirmEatCoin (normalizeCharacter sampleHost
          [(''personalBank'', Obj [(''bronze'', Num (Fin 1152921504606846976))]),
           (''maxMp'', Num (Fin 200)), (''currentMp'', Num (Fin 40))]) bronze)) = Fin 200"
  by code_simp

text \<open>
  Claim C5, amended. On a character of the application the count \<open>i\<close> of the chosen coin in
  the personal bank is a non-negative integer. When it is 0, \<open>confirmEatCoin\<close> returns without
  an update and the character is unchanged; when it is positive and at most \<open>2 ^ 53\<close>, its one
  update sets that count to \<open>i - 1\<close>, leaves the other counts, sets \<open>currentMp\<close> to \<open>maxMp\<close> and
  changes nothing else.
\<close>

theorem confirmEatCoin_rejects_or_consumes_bounded:
  "c = normalizeCharacter h x \<Longrightarrow>
   \<exists>i. 0 \<le> i \<and> map_of (personalBank c) k = Some (Fin (of_int i)) \<and>
     (i = 0 \<longrightarrow> confirmEatCoin c k = None \<and> dispatch h' c (confirmEatCoin c k) = c) \<and>
     (i \<noteq> 0 \<and> i \<le> 2 ^ 53 \<longrightarrow>
        dispatch h' c (confirmEatCoin c k) =
          c\<lparr>personalBank := AList.update k (Fin (of_int (i - 1))) (personalBank c),
            currentMp := maxMp c\<rparr> \<and>
        map_of (personalBank (dispatch h' c (confirmEatCoin c k))) =
          (map_of (personalBank c))(k \<mapsto> Fin (of_int (i - 1))))"
proof -
  assume c: "c = normalizeCharacter h x"
  have n: "normalized c" unfolding c by (rule normalized_normalizeCharacter)
  from normalizedD(24) [OF n] obtain f where f: "personalBank c = map (\<lambda>k. (k, Fin (of_int (f k)))) COIN_KEYS"
      "\<forall>k. 0 \<le> f k" by blast
  have lk: "map_of (personalBank c) k = Some (Fin (of_int (f k)))"
    unfolding f(1) by (rule bank_lookup)
  have zero: "confirmEatCoin c k = None \<and> dispatch h' c (confirmEatCoin c k) = c" if "f k = 0"
    using that by (simp add: confirmEatCoin_count [OF f(1)] dispatch_def)
  have pos: "dispatch h' c (confirmEatCoin c k) =
          c\<lparr>personalBank := AList.update k (Fin (of_int (f k - 1))) (personalBank c),
            currentMp := maxMp c\<rparr>" if "f k \<noteq> 0 \<and> f k \<le> 2 ^ 53"
  proof -
    from that f(2) have p: "0 < f k" and le: "f k \<le> 2 ^ 53" by (simp_all add: order_less_le)
    then have "dispatch h' c (confirmEatCoin c k) =
        normalizeCharacter h' (character_obj
          (c\<lparr>personalBank := AList.update k (Fin (of_int (f k - 1))) (personalBank c),
             currentMp := maxMp c\<rparr>))"
      by (simp add: confirmEatCoin_count [OF f(1) le] dispatch_def nextCharacter_def spread_eatCoin)
    also have "\<dots> = c\<lparr>personalBank := AList.update k (Fin (of_int (f k - 1))) (personalBank c),
             currentMp := maxMp c\<rparr>"
      by (rule normalizeCharacter_fix) (rule normalized_eatCoin [OF n f(1) p])
    finally show ?thesis .
  qed
  have upd: "map_of (personalBank (dispatch h' c (confirmEatCoin c k))) =
          (map_of (personalBank c))(k \<mapsto> Fin (of_int (f k - 1)))" if "f k \<noteq> 0 \<and> f k \<le> 2 ^ 53"
    unfolding pos [OF that] by (simp add: update_conv')
  show ?thesis
    by (rule exI [of _ "f k"]) (use f(2) lk zero pos upd in blast)
qed

text \<open>
  With two bronze coins and \<open>maxMp\<close> 200, eating a bronze coin leaves one and 200 mana
  points; eating a silver coin, of which there is none, is refused.
\<close>

theorem confirmEatCoin_rejects_or_consumes_bounded_witness:
  "map_of (personalBank (dispatch sampleHost
       (normalizeCharacter sampleHost
          [(''personalBank'', Obj [(''bronze'', Num (Fin 2))]), (''maxMp'', Num (Fin 200)),
           (''currentMp'', Num (Fin 40))])
       (confirmEatCoin (normalizeCharacter sampleHost
          [(''personalBank'', Obj [(''bronze'', Num (Fin 2))]), (''maxMp'', Num (Fin 200)),
           (''currentMp'', Num (Fin 40))]) bronze))) bronze = Some (Fin 1) \<and>
   currentMp (dispatch sampleHost
       (normalizeCharacter sampleHost
          [(''personalBank'', Obj [(''bronze'', Num (Fin 2))]), (''maxMp'', Num (Fin 200)),
           (''currentMp'', Num (Fin 40))])
       (confirmEatCoin (normalizeCharacter sampleHost
          [(''personalBank'', Obj [(''bronze'', Num (Fin 2))]), (''maxMp'', Num (Fin 200)),
           (''currentMp'', Num (Fin 40))]) bronze)) = Fin 200 \<and>
   confirmEatCoin (normalizeCharacter sampleHost
          [(''personalBank'', Obj [(''bronze'', Num (Fin 2))]), (''maxMp'', Num (Fin 200)),
           (''currentMp'', Num (Fin 40))]) silver = None"
proof -
  let ?x = "[(''personalBank'', Obj [(''bronze'', Num (Fin 2))]), (''maxMp'', Num (Fin 200)),
           (''currentMp'', Num (Fin 40))]"
  let ?c = "normalizeCharacter sampleHost ?x"
  have e: "map_of (personalBank ?c) bronze = Some (Fin 2)"
      "map_of (personalBank ?c) silver = Some (Fin 0)" "maxMp ?c = Fin 200"
    by code_simp+
  obtain i where i: "map_of (personalBank ?c) bronze = Some (Fin (of_int i))"
      "i \<noteq> 0 \<and> i \<le> 2 ^ 53 \<longrightarrow> dispatch sampleHost ?c (confirmEatCoin ?c bronze) =
          ?c\<lparr>personalBank := AList.update bronze (Fin (of_int (i - 1))) (personalBank ?c),
            currentMp := maxMp ?c\<rparr> \<and>
        map_of (personalBank (dispatch sampleHost ?c (confirmEatCoin ?c bronze))) =
          (map_of (personalBank ?c))(bronze \<mapsto> Fin (of_int (i - 1)))"
    using confirmEatCoin_rejects_or_consumes_bounded
      [OF refl, where h = sampleHost and x = ?x and k = bronze and h' = sampleHost] by blast
  from i(1) e(1) have "rat_of_int i = 2" by simp
  then have i2: "i = 2" by (metis of_int_eq_numeral_iff)
  obtain j where j: "map_of (personalBank ?c) silver = Some (Fin (of_int j))"
      "j = 0 \<longrightarrow> confirmEatCoin ?c silver = None \<and> dispatch sampleHost ?c (confirmEatCoin ?c silver) = ?c"
    using confirmEatCoin_rejects_or_consumes_bounded
      [OF refl, where h = sampleHost and x = ?x and k = silver and h' = sampleHost] by blast
  from j(1) e(2) have j0: "j = 0" by simp
  have "(2::int) \<noteq> 0 \<and> (2::int) \<le> 2 ^ 53" by simp
  with i(2) [unfolded i2]
  have d: "dispatch sampleHost ?c (confirmEatCoin ?c bronze) =
          ?c\<lparr>personalBank := AList.update bronze (Fin (of_int (2 - 1))) (personalBank ?c),
             currentMp := maxMp ?c\<rparr>"
    and u: "map_of (personalBank (dispatch sampleHost ?c (confirmEatCoin ?c bronze))) =
          (map_of (personalBank ?c))(bronze \<mapsto> Fin (of_int (2 - 1)))"
    by blast+
  have r1: "map_of (personalBank (dispatch sampleHost ?c (confirmEatCoin ?c bronze))) bronze = Some (Fin 1)"
    unfolding u by simp
  have r2: "currentMp (dispatch sampleHost ?c (confirmEatCoin ?c bronze)) = Fin 200"
    unfolding d by (simp add: e(3))
  have r3: "confirmEatCoin ?c silver = None" using j(2) j0 by blast
  show ?thesis using r1 r2 r3 by blast
qed

text \<open>
  Claim C6, as stated, fails on the code: \<open>normalizeCharacter\<close> trims and upper-cases each
  party member code and no more, so \<open>"ab-cd"\<close> keeps its hyphen and a code of 26 letters
  keeps them all; \<open>normalizePartyMemberCodes\<close>, which the character sheet applies to the
  same field, removes the hyphen and cuts at 16. (What \<open>normalizeCharacter\<close> ensures is
  \<open>normalizeCharacter_partyMemberCodes_shape\<close>: four slots, each trimmed and in upper case;
  \<open>normalizePartyMemberCodes_shape\<close> is what the claim states.)
\<close>

theorem normalizeCharacter_partyMemberCodes_unfiltered:
  "partyMemberCodes (normalizeCharacter sampleHost
      [(''partyMemberCodes'', Arr [Str ''ab-cd'', Str ''abcdefghijklmnopqrstuvwxyz''])]) =
     [''AB-CD'', ''ABCDEFGHIJKLMNOPQRSTUVWXYZ'', [], []] \<and>
   normalizePartyMemberCodes sampleHost (Arr [Str ''ab-cd'', Str ''abcdefghijklmnopqrstuvwxyz'']) =
     [''ABCD'', ''ABCDEFGHIJKLMNOP'', [], []]"
  by code_simp

text \<open>
  Claim C7, as stated, fails on the code: \<open>normalizeArmor\<close> rounds nothing, so an \<open>acBonus\<close> of
  5/2 and a strength bonus of 3/2 are kept.
\<close>

theorem normalizeArmor_not_integer:
  "\<not> isInteger (acBonus (normalizeArmor sampleHost (Obj [(''acBonus'', Num (Fin (5 / 2)))]))) \<and>
   map_of (abilityBonuses (normalizeArmor sampleHost
          (Obj [(''abilityBonuses'', Obj [(''str'', Num (Fin (3 / 2)))])]))) A_str = Some (Fin (3 / 2)) \<and>
   \<not> isInteger (Fin (3 / 2))"
  by code_simp

text \<open>
  Claim C7, amended. For every input the armor returned by \<open>normalizeArmor\<close> has a finite
  \<open>acBonus\<close>, the input's \<open>acBonus\<close> as a number when that is finite and 0 otherwise; its
  \<open>abilityBonuses\<close> has an entry for an ability key exactly when the input's value for the
  key, as a number, is finite and not zero, and the entry is that number.
\<close>

theorem normalizeArmor_bonuses:
  "acBonus (normalizeArmor h a) =
     (let n = js_Number h (get a ''acBonus'') in if isFiniteNum n then n else Fin 0) \<and>
   isFiniteNum (acBonus (normalizeArmor h a)) \<and>
   map_of (abilityBonuses (normalizeArmor h a)) k =
     (let n = js_Number h (get (get a ''abilityBonuses'') (abilityKeyName k))
      in if isFiniteNum n \<and> n \<noteq> Fin 0 then Some n else None)"
  by (simp add: normalizeArmor_def Let_def normalizeAbilityBonuses_lookup)

text \<open>
  An armor with \<open>acBonus\<close> 5/2 and bonuses str 3/2, dex 0, con NaN keeps 5/2 and has no entry
  for dex.
\<close>

theorem normalizeArmor_bonuses_witness:
  "acBonus (normalizeArmor sampleHost
      (Obj [(''acBonus'', Num (Fin (5 / 2))),
            (''abilityBonuses'', Obj [(''str'', Num (Fin (3 / 2))), (''dex'', Num (Fin 0)),
                                      (''con'', Num NaN)])])) = Fin (5 / 2) \<and>
   map_of (abilityBonuses (normalizeArmor sampleHost
      (Obj [(''acBonus'', Num (Fin (5 / 2))),
            (''abilityBonuses'', Obj [(''str'', Num (Fin (3 / 2))), (''dex'', Num (Fin 0)),
                                      (''con'', Num NaN)])]))) A_dex = None"
  using normalizeArmor_bonuses [of sampleHost
      "Obj [(''acBonus'', Num (Fin (5 / 2))),
            (''abilityBonuses'', Obj [(''str'', Num (Fin (3 / 2))), (''dex'', Num (Fin 0)),
                                      (''con'', Num NaN)])]" A_dex]
  by simp







text \<open>
  Claim C10. When the input's \<open>currentHp\<close> (\<open>currentMp\<close>) is missing, or anything but a finite
  number, the character returned by \<open>normalizeCharacter\<close> has its \<open>currentHp\<close> equal to its
  \<open>maxHp\<close> (its \<open>currentMp\<close> to its \<open>maxMp\<close>).
\<close>

theorem normalizeCharacter_current_defaults:
  "(\<not> Number_isFinite (get (Obj x) ''currentHp'') \<longrightarrow>
      currentHp (normalizeCharacter h x) = maxHp (normalizeCharacter h x)) \<and>
   (\<not> Number_isFinite (get (Obj x) ''currentMp'') \<longrightarrow>
      currentMp (normalizeCharacter h x) = maxMp (normalizeCharacter h x)) \<and>
   (map_of x ''currentHp'' = None \<longrightarrow>
      currentHp (normalizeCharacter h x) = maxHp (normalizeCharacter h x)) \<and>
   (map_of x ''currentMp'' = None \<longrightarrow>
      currentMp (normalizeCharacter h x) = maxMp (normalizeCharacter h x))"
proof -
  obtain m where m: "maxHp (normalizeCharacter h x) = Fin m" "0 \<le> m"
    using normalizeCharacter_max_bounds(1) by blast
  obtain m' where m': "maxMp (normalizeCharacter h x) = Fin m'" "0 \<le> m'"
    using normalizeCharacter_max_bounds(2) by blast
  have a: "\<not> Number_isFinite (get (Obj x) ''currentHp'') \<Longrightarrow>
      currentHp (normalizeCharacter h x) = maxHp (normalizeCharacter h x)"
    using m by (simp add: normalizeCharacter_current(1) [of h x] clamp_Fin del: get.simps)
  have b: "\<not> Number_isFinite (get (Obj x) ''currentMp'') \<Longrightarrow>
      currentMp (normalizeCharacter h x) = maxMp (normalizeCharacter h x)"
    using m' by (simp add: normalizeCharacter_current(2) [of h x] clamp_Fin del: get.simps)
  show ?thesis using a b get_missing [of x] by (auto simp del: get.simps)
qed

text \<open>
  With \<open>maxHp\<close> 80, \<open>currentHp\<close> NaN and no \<open>currentMp\<close>, the character has 80 of 80 hit points
  and the 200 mana points of the Human preset.
\<close>

theorem normalizeCharacter_current_defaults_witness:
  "\<not> Number_isFinite (get (Obj [(''maxHp'', Num (Fin 80)), (''currentHp'', Num NaN)]) ''currentHp'') \<and>
   map_of [(''maxHp'', Num (Fin 80)), (''currentHp'', Num NaN)] ''currentMp'' = None \<and>
   currentHp (normalizeCharacter sampleHost [(''maxHp'', Num (Fin 80)), (''currentHp'', Num NaN)]) = Fin 80 \<and>
   currentMp (normalizeCharacter sampleHost [(''maxHp'', Num (Fin 80)), (''currentHp'', Num NaN)]) = Fin 200"
proof -
  have e: "maxHp (normalizeCharacter sampleHost [(''maxHp'', Num (Fin 80)), (''currentHp'', Num NaN)]) = Fin 80"
      "maxMp (normalizeCharacter sampleHost [(''maxHp'', Num (Fin 80)), (''currentHp'', Num NaN)]) = Fin 200"
    by code_simp+
  show ?thesis
    using normalizeCharacter_current_defaults [of "[(''maxHp'', Num (Fin 80)), (''currentHp'', Num NaN)]" sampleHost]
    by (simp add: e)
qed

end
